theory Spec2Isabelle
  imports Main "HOL-Library.Sublist"
begin

section \<open>Go strings\<close>

text \<open>
  A Go string is a sequence of bytes, and so is a HOL \<open>string\<close>: every \<open>char\<close> is
  one byte. Text beyond ASCII is present in its UTF-8 encoding, several bytes long.
  \<open>fmt.Sprintf\<close> with the verb \<open>%s\<close> copies the bytes of a string argument as they
  are, so the three format calls of the program are written as concatenations.
\<close>

definition byte :: "char \<Rightarrow> nat" where
  "byte c = of_char c"

subsection \<open>Package strings\<close>

text \<open>
  \<open>unicode.IsSpace\<close> holds of the code points U+0009..U+000D, U+0020, U+0085, U+00A0,
  U+1680, U+2000..U+200A, U+2028, U+2029, U+202F, U+205F and U+3000. \<open>spaceRunes\<close>
  lists their UTF-8 encodings. A byte that is not part of a valid encoding decodes to
  U+FFFD, which is not white space.
\<close>

definition spaceRunes :: "string list" where
  "spaceRunes =
    [[CHR 0x09], [CHR 0x0A], [CHR 0x0B], [CHR 0x0C], [CHR 0x0D], [CHR 0x20],
     [CHR 0xC2, CHR 0x85], [CHR 0xC2, CHR 0xA0],
     [CHR 0xE1, CHR 0x9A, CHR 0x80],
     [CHR 0xE2, CHR 0x80, CHR 0x80], [CHR 0xE2, CHR 0x80, CHR 0x81],
     [CHR 0xE2, CHR 0x80, CHR 0x82], [CHR 0xE2, CHR 0x80, CHR 0x83],
     [CHR 0xE2, CHR 0x80, CHR 0x84], [CHR 0xE2, CHR 0x80, CHR 0x85],
     [CHR 0xE2, CHR 0x80, CHR 0x86], [CHR 0xE2, CHR 0x80, CHR 0x87],
     [CHR 0xE2, CHR 0x80, CHR 0x88], [CHR 0xE2, CHR 0x80, CHR 0x89],
     [CHR 0xE2, CHR 0x80, CHR 0x8A],
     [CHR 0xE2, CHR 0x80, CHR 0xA8], [CHR 0xE2, CHR 0x80, CHR 0xA9],
     [CHR 0xE2, CHR 0x80, CHR 0xAF],
     [CHR 0xE2, CHR 0x81, CHR 0x9F],
     [CHR 0xE3, CHR 0x80, CHR 0x80]]"

text \<open>
  The width in bytes of the white-space rune that \<open>utf8.DecodeRuneInString\<close> finds at
  the start of the string, and that \<open>utf8.DecodeLastRuneInString\<close> finds at its end;
  0 when the rune there is not white space (or the string is empty). Decoding gives a
  white-space rune exactly when the bytes there are the encoding of one: no encoding in
  the list is the start or the end of another, and a byte of a longer or broken
  sequence decodes to another rune or to U+FFFD.
\<close>

definition leadingSpace :: "string \<Rightarrow> nat" where
  "leadingSpace s =
     (case List.find (\<lambda>e. prefix e s) spaceRunes of None \<Rightarrow> 0 | Some e \<Rightarrow> length e)"

definition trailingSpace :: "string \<Rightarrow> nat" where
  "trailingSpace s =
     (case List.find (\<lambda>e. suffix e s) spaceRunes of None \<Rightarrow> 0 | Some e \<Rightarrow> length e)"

lemma spaceRunes_nonempty: "e \<in> set spaceRunes \<Longrightarrow> e \<noteq> []"
  by (auto simp: spaceRunes_def)

lemma leadingSpace_pos:
  assumes "leadingSpace s \<noteq> 0"
  shows "\<exists>e \<in> set spaceRunes. prefix e s \<and> leadingSpace s = length e"
proof (cases "List.find (\<lambda>e. prefix e s) spaceRunes")
  case None
  then show ?thesis using assms by (simp add: leadingSpace_def)
next
  case (Some e)
  then have "e \<in> set spaceRunes" "prefix e s" by (auto simp: find_Some_iff)
  with Some show ?thesis by (auto simp: leadingSpace_def)
qed

lemma trailingSpace_pos:
  assumes "trailingSpace s \<noteq> 0"
  shows "\<exists>e \<in> set spaceRunes. suffix e s \<and> trailingSpace s = length e"
proof (cases "List.find (\<lambda>e. suffix e s) spaceRunes")
  case None
  then show ?thesis using assms by (simp add: trailingSpace_def)
next
  case (Some e)
  then have "e \<in> set spaceRunes" "suffix e s" by (auto simp: find_Some_iff)
  with Some show ?thesis by (auto simp: trailingSpace_def)
qed

text \<open>
  \<open>strings.TrimLeftFunc(s, unicode.IsSpace)\<close>: the string from its first rune that is
  not white space.
\<close>

function TrimLeft :: "string \<Rightarrow> string" where
  "TrimLeft s = (if leadingSpace s = 0 then s else TrimLeft (drop (leadingSpace s) s))"
  by pat_completeness auto
termination
proof (relation "measure length")
  fix s assume "leadingSpace s \<noteq> 0"
  then obtain e where "e \<in> set spaceRunes" "prefix e s" "leadingSpace s = length e"
    using leadingSpace_pos by blast
  then show "(drop (leadingSpace s) s, s) \<in> measure length"
    using spaceRunes_nonempty [of e] by (auto simp: prefix_def)
qed simp

text \<open>
  \<open>strings.TrimRightFunc(s, unicode.IsSpace)\<close>: the string up to its last rune that
  is not white space.
\<close>

function TrimRight :: "string \<Rightarrow> string" where
  "TrimRight s =
     (if trailingSpace s = 0 then s else TrimRight (take (length s - trailingSpace s) s))"
  by pat_completeness auto
termination
proof (relation "measure length")
  fix s assume "trailingSpace s \<noteq> 0"
  then obtain e where "e \<in> set spaceRunes" "suffix e s" "trailingSpace s = length e"
    using trailingSpace_pos by blast
  then show "(take (length s - trailingSpace s) s, s) \<in> measure length"
    using spaceRunes_nonempty [of e] by (auto simp: suffix_def)
qed simp

text \<open>
  \<open>strings.TrimSpace\<close>: all leading and trailing white space removed. (The library
  has a fast path for ASCII and falls back to the two functions above.)
\<close>

definition TrimSpace :: "string \<Rightarrow> string" where
  "TrimSpace s = TrimRight (TrimLeft s)"

text \<open>\<open>strings.TrimSuffix\<close>: the string without the given suffix, if it ends with it.\<close>

definition TrimSuffix :: "string \<Rightarrow> string \<Rightarrow> string" where
  "TrimSuffix s suf = (if suffix suf s then take (length s - length suf) s else s)"

text \<open>\<open>strings.Join\<close>.\<close>

fun Join :: "string list \<Rightarrow> string \<Rightarrow> string" where
  "Join [] sep = []"
| "Join [a] sep = a"
| "Join (a # b # elems) sep = a @ sep @ Join (b # elems) sep"

text \<open>
  \<open>strings.Cut\<close>: the text before and after the first instance of the separator, or
  \<open>None\<close> when the separator does not occur.
\<close>

fun Cut :: "string \<Rightarrow> string \<Rightarrow> (string \<times> string) option" where
  "Cut [] sep = (if sep = [] then Some ([], []) else None)"
| "Cut (c # s) sep =
     (if prefix sep (c # s) then Some ([], drop (length sep) (c # s))
      else (case Cut s sep of None \<Rightarrow> None | Some (pre, post) \<Rightarrow> Some (c # pre, post)))"

section \<open>Errors\<close>

text \<open>
  A Go \<open>error\<close> value. \<open>ContinueGroups\<close> and \<open>EndGroups\<close> are the two sentinel
  errors of the bot library with which a handler steers the dispatcher;
  \<open>EscapeError\<close> is the error of package net/url for a malformed percent escape; any
  other error is its message.
\<close>

datatype error = ContinueGroups | EndGroups | EscapeError string | Error string

subsection \<open>Package net/url\<close>

definition upperhex :: string where
  "upperhex = ''0123456789ABCDEF''"

definition isAlnum :: "char \<Rightarrow> bool" where
  "isAlnum c =
     (byte (CHR ''a'') \<le> byte c \<and> byte c \<le> byte (CHR ''z'') \<or>
      byte (CHR ''A'') \<le> byte c \<and> byte c \<le> byte (CHR ''Z'') \<or>
      byte (CHR ''0'') \<le> byte c \<and> byte c \<le> byte (CHR ''9''))"

text \<open>
  \<open>shouldEscape(c, encodePathSegment)\<close>: letters, digits and the marks \<open>-_.~\<close> are
  kept; of the reserved characters \<open>$&+,/:;=?@\<close> a path segment escapes \<open>/ ; , ?\<close>
  only; every other byte is escaped.
\<close>

definition shouldEscape :: "char \<Rightarrow> bool" where
  "shouldEscape c =
     (if isAlnum c then False
      else if c \<in> set ''-_.~'' then False
      else if c \<in> set ''$&+,/:;=?@'' then
        c = CHR ''/'' \<or> c = CHR '';'' \<or> c = CHR '','' \<or> c = CHR ''?''
      else True)"

text \<open>\<open>escape(s, encodePathSegment)\<close>: an escaped byte becomes \<open>%XX\<close>, in upper-case hex.\<close>

primrec escape :: "string \<Rightarrow> string" where
  "escape [] = []"
| "escape (c # s) =
     (if shouldEscape c
      then [CHR ''%'', upperhex ! (byte c div 16), upperhex ! (byte c mod 16)]
      else [c]) @ escape s"

definition PathEscape :: "string \<Rightarrow> string" where
  "PathEscape s = escape s"

definition ishex :: "char \<Rightarrow> bool" where
  "ishex c =
     (byte (CHR ''0'') \<le> byte c \<and> byte c \<le> byte (CHR ''9'') \<or>
      byte (CHR ''a'') \<le> byte c \<and> byte c \<le> byte (CHR ''f'') \<or>
      byte (CHR ''A'') \<le> byte c \<and> byte c \<le> byte (CHR ''F''))"

definition unhex :: "char \<Rightarrow> nat" where
  "unhex c =
     (if byte (CHR ''0'') \<le> byte c \<and> byte c \<le> byte (CHR ''9'') then byte c - byte (CHR ''0'')
      else if byte (CHR ''a'') \<le> byte c \<and> byte c \<le> byte (CHR ''f'') then byte c - byte (CHR ''a'') + 10
      else if byte (CHR ''A'') \<le> byte c \<and> byte c \<le> byte (CHR ''F'') then byte c - byte (CHR ''A'') + 10
      else 0)"

text \<open>
  \<open>unescape(s, encodePathSegment)\<close> makes two passes. The first looks for a \<open>%\<close> that
  is not followed by two hex digits and fails with the offending text (three bytes at
  most); the second decodes. A \<open>+\<close> stands for itself in a path segment.
\<close>

fun unescapeCheck :: "string \<Rightarrow> string option" where
  "unescapeCheck [] = None"
| "unescapeCheck (c # s) =
     (if c = CHR ''%'' then
        (case s of
           a # b # rest \<Rightarrow>
             if ishex a \<and> ishex b then unescapeCheck rest else Some (take 3 (c # s))
         | _ \<Rightarrow> Some (take 3 (c # s)))
      else unescapeCheck s)"

fun unescapeBuild :: "string \<Rightarrow> string" where
  "unescapeBuild [] = []"
| "unescapeBuild (c # s) =
     (if c = CHR ''%'' then
        (case s of
           a # b # rest \<Rightarrow> char_of (unhex a * 16 + unhex b) # unescapeBuild rest
         | _ \<Rightarrow> [])
      else c # unescapeBuild s)"

definition PathUnescape :: "string \<Rightarrow> error + string" where
  "PathUnescape s =
     (case unescapeCheck s of Some bad \<Rightarrow> Inl (EscapeError bad) | None \<Rightarrow> Inr (unescapeBuild s))"

subsection \<open>Package html/template\<close>

text \<open>
  The escapers of the template package. \<open>htmlReplacer\<close> walks the runes of the text
  and replaces those that have an entry in \<open>htmlReplacementTable\<close>; all seven are
  ASCII, every other rune (and every byte of invalid UTF-8) is copied as it is. The
  text-node escaper and the quoted-attribute escaper both use this table for a plain
  string.
\<close>

definition htmlReplacementTable :: "char \<Rightarrow> string" where
  \<open>htmlReplacementTable c =
     (if c = CHR 0x00 then [CHR 0xEF, CHR 0xBF, CHR 0xBD]
      else if c = CHR 0x22 then ''&#34;''
      else if c = CHR ''&'' then ''&amp;''
      else if c = CHR 0x27 then ''&#39;''
      else if c = CHR ''+'' then ''&#43;''
      else if c = CHR ''<'' then ''&lt;''
      else if c = CHR ''>'' then ''&gt;''
      else [])\<close>

primrec htmlReplacer :: "string \<Rightarrow> string" where
  "htmlReplacer [] = []"
| "htmlReplacer (c # s) =
     (if htmlReplacementTable c = [] then [c] else htmlReplacementTable c) @ htmlReplacer s"

definition htmlEscaper :: "string \<Rightarrow> string" where
  "htmlEscaper s = htmlReplacer s"

definition attrEscaper :: "string \<Rightarrow> string" where
  "attrEscaper s = htmlReplacer s"

definition lowerhex :: string where
  "lowerhex = ''0123456789abcdef''"

text \<open>
  \<open>processURLOnto\<close>: unreserved bytes are kept; when normalising (\<open>norm\<close>), so are
  the reserved ones and a \<open>%\<close> that starts a valid escape; every other byte is
  written as \<open>%xx\<close>, in lower-case hex.
\<close>

fun processURLOnto :: "bool \<Rightarrow> string \<Rightarrow> string" where
  "processURLOnto norm [] = []"
| "processURLOnto norm (c # s) =
     (if (c \<in> set ''!#$&*+,/:;=?@[]'' \<and> norm)
         \<or> c \<in> set ''-._~''
         \<or> (c = CHR ''%'' \<and> norm \<and> (case s of a # b # _ \<Rightarrow> ishex a \<and> ishex b | _ \<Rightarrow> False))
         \<or> isAlnum c
      then [c]
      else [CHR ''%'', lowerhex ! (byte c div 16), lowerhex ! (byte c mod 16)])
     @ processURLOnto norm s"

definition urlNormalizer :: "string \<Rightarrow> string" where
  "urlNormalizer s = processURLOnto True s"

definition urlEscaper :: "string \<Rightarrow> string" where
  "urlEscaper s = processURLOnto False s"

definition asciiLower :: "char \<Rightarrow> char" where
  "asciiLower c =
     (if byte (CHR ''A'') \<le> byte c \<and> byte c \<le> byte (CHR ''Z'') then char_of (byte c + 32) else c)"

text \<open>
  \<open>strings.EqualFold\<close> against an ASCII lower-case word: a letter matches in either
  case, and so do the two code points beyond ASCII whose simple case folding is an
  ASCII letter (U+017F for \<open>s\<close>, U+212A for \<open>k\<close>).
\<close>

fun EqualFold :: "string \<Rightarrow> string \<Rightarrow> bool" where
  "EqualFold [] [] = True"
| "EqualFold (c # s) [] = False"
| "EqualFold s (p # ps) =
     (if p = CHR ''s'' \<and> prefix [CHR 0xC5, CHR 0xBF] s then EqualFold (drop 2 s) ps
      else if p = CHR ''k'' \<and> prefix [CHR 0xE2, CHR 0x84, CHR 0xAA] s then EqualFold (drop 3 s) ps
      else (case s of [] \<Rightarrow> False | c # r \<Rightarrow> asciiLower c = p \<and> EqualFold r ps))"

text \<open>
  \<open>isSafeURL\<close>: a URL with a scheme (text before the first colon, with no slash in
  it) is safe only when the scheme is http, https or mailto. \<open>urlFilter\<close> replaces an
  unsafe URL by \<open>#ZgotmplZ\<close>.
\<close>

definition isSafeURL :: "string \<Rightarrow> bool" where
  "isSafeURL s =
     (case Cut s '':'' of
        None \<Rightarrow> True
      | Some (protocol, _) \<Rightarrow>
          if CHR ''/'' \<notin> set protocol then
            EqualFold protocol ''http'' \<or> EqualFold protocol ''https''
            \<or> EqualFold protocol ''mailto''
          else True)"

definition urlFilter :: "string \<Rightarrow> string" where
  "urlFilter s = (if \<not> isSafeURL s then ''#'' @ ''ZgotmplZ'' else s)"

text \<open>
  Templates. The program's template is literal HTML with field actions
  \<open>{{.Field}}\<close>; the model covers this part of the template language: text, field
  actions, and the contexts of an HTML text node and of a double-quoted attribute value.
  Anything else is refused with an error by the model.

  \<open>Parse\<close> cuts the text at the action delimiters.
\<close>

datatype node = TextNode string | ActionNode string

definition textNode :: "string \<Rightarrow> node list" where
  "textNode s = (if s = [] then [] else [TextNode s])"

definition parseField :: "string \<Rightarrow> error + string" where
  "parseField action =
     (case TrimSpace action of
        c # name \<Rightarrow>
          if c = CHR ''.'' \<and> name \<noteq> [] \<and> list_all (\<lambda>d. isAlnum d \<or> d = CHR ''_'') name
          then Inr name
          else Inl (Error (''unsupported action: '' @ action))
      | [] \<Rightarrow> Inl (Error ''missing value for command''))"

lemma Cut_shorter: "Cut s sep = Some (pre, post) \<Longrightarrow> length post + length sep \<le> length s"
proof (induction s arbitrary: pre)
  case Nil
  then show ?case by (simp split: if_splits)
next
  case (Cons c s)
  show ?case
  proof (cases "prefix sep (c # s)")
    case True
    then have "length sep \<le> length (c # s)" by (rule prefix_length_le)
    with True Cons.prems show ?thesis by auto
  next
    case False
    with Cons.prems obtain b where "Cut s sep = Some (b, post)"
      by (auto split: option.splits)
    from Cons.IH [OF this] show ?thesis by simp
  qed
qed

function Parse :: "string \<Rightarrow> error + node list" where
  "Parse text =
     (case Cut text ''{{'' of
        None \<Rightarrow> Inr (textNode text)
      | Some (pre, rest) \<Rightarrow>
          (case Cut rest ''}}'' of
             None \<Rightarrow> Inl (Error ''unclosed action'')
           | Some (action, post) \<Rightarrow>
               (case parseField action of
                  Inl err \<Rightarrow> Inl err
                | Inr name \<Rightarrow>
                    (case Parse post of
                       Inl err \<Rightarrow> Inl err
                     | Inr nodes \<Rightarrow> Inr (textNode pre @ ActionNode name # nodes)))))"
  by pat_completeness auto
termination
proof (relation "measure length")
  fix tpl :: string and x pre rest y action post n
  assume "Cut tpl ''{{'' = Some x" "(pre, rest) = x"
    "Cut rest ''}}'' = Some y" "(action, post) = y"
  then have "length rest + length ''{{'' \<le> length tpl" "length post + length ''}}'' \<le> length rest"
    using Cut_shorter by metis+
  then show "(post, tpl) \<in> measure length" by simp
qed simp

text \<open>
  The contextual escaper follows the HTML of the template text and decides, for each
  action, in which context its value lands.
\<close>

datatype urlPart = urlPartNone | urlPartPreQuery | urlPartQueryOrFrag

datatype escContext =
    stateText
  | stateTagName
  | stateTag
  | stateAttrName string
  | stateAfterName string
  | stateBeforeValue string
  | stateAttr
  | stateURL urlPart
  | stateError

definition isHTMLSpace :: "char \<Rightarrow> bool" where
  "isHTMLSpace c = (c \<in> set [CHR 0x09, CHR 0x0A, CHR 0x0C, CHR 0x0D, CHR 0x20])"

definition urlAttrs :: "string list" where
  "urlAttrs =
    [''action'', ''archive'', ''background'', ''cite'', ''classid'', ''codebase'', ''data'',
     ''formaction'', ''href'', ''icon'', ''longdesc'', ''manifest'', ''poster'', ''profile'',
     ''src'', ''usemap'', ''xmlns'']"

definition attrValueContext :: "string \<Rightarrow> escContext" where
  "attrValueContext name =
     (if name \<in> set urlAttrs then stateURL urlPartNone
      else if prefix ''on'' name \<or> name = ''style'' \<or> name = ''srcset'' then stateError
      else stateAttr)"

fun nextContext :: "escContext \<Rightarrow> char \<Rightarrow> escContext" where
  "nextContext stateText c = (if c = CHR ''<'' then stateTagName else stateText)"
| "nextContext stateTagName c =
     (if c = CHR ''>'' then stateText else if isHTMLSpace c then stateTag else stateTagName)"
| "nextContext stateTag c =
     (if c = CHR ''>'' then stateText
      else if isHTMLSpace c \<or> c = CHR ''/'' then stateTag
      else stateAttrName [asciiLower c])"
| "nextContext (stateAttrName name) c =
     (if c = CHR ''='' then stateBeforeValue name
      else if c = CHR ''>'' then stateText
      else if isHTMLSpace c then stateAfterName name
      else stateAttrName (name @ [asciiLower c]))"
| "nextContext (stateAfterName name) c =
     (if c = CHR ''='' then stateBeforeValue name
      else if c = CHR ''>'' then stateText
      else if isHTMLSpace c then stateAfterName name
      else stateAttrName [asciiLower c])"
| \<open>nextContext (stateBeforeValue name) c =
     (if c = CHR 0x22 then attrValueContext name
      else if isHTMLSpace c then stateBeforeValue name
      else stateError)\<close>
| \<open>nextContext stateAttr c = (if c = CHR 0x22 then stateTag else stateAttr)\<close>
| \<open>nextContext (stateURL part) c =
     (if c = CHR 0x22 then stateTag
      else if c = CHR ''#'' \<or> c = CHR ''?'' then stateURL urlPartQueryOrFrag
      else if \<not> isHTMLSpace c \<and> part = urlPartNone then stateURL urlPartPreQuery
      else stateURL part)\<close>
| "nextContext stateError c = stateError"

datatype escaper =
  html_template_htmlescaper | html_template_attrescaper | html_template_urlfilter
  | html_template_urlnormalizer | html_template_urlescaper

text \<open>The escapers that \<open>escapeAction\<close> puts behind an action, by its context.\<close>

fun escapeAction :: "escContext \<Rightarrow> escaper list option" where
  "escapeAction stateText = Some [html_template_htmlescaper]"
| "escapeAction stateAttr = Some [html_template_attrescaper]"
| "escapeAction (stateURL urlPartNone) =
     Some [html_template_urlfilter, html_template_urlnormalizer, html_template_attrescaper]"
| "escapeAction (stateURL urlPartPreQuery) =
     Some [html_template_urlnormalizer, html_template_attrescaper]"
| "escapeAction (stateURL urlPartQueryOrFrag) =
     Some [html_template_urlescaper, html_template_attrescaper]"
| "escapeAction _ = None"

datatype command = WriteText string | WriteField string "escaper list"

fun escapeTemplate :: "escContext \<Rightarrow> node list \<Rightarrow> error + command list" where
  "escapeTemplate c [] =
     (if c = stateText then Inr [] else Inl (Error ''template ends in a non-text context''))"
| "escapeTemplate c (TextNode s # nodes) =
     (case escapeTemplate (foldl nextContext c s) nodes of
        Inl err \<Rightarrow> Inl err
      | Inr cmds \<Rightarrow> Inr (WriteText s # cmds))"
| "escapeTemplate c (ActionNode name # nodes) =
     (case escapeAction c of
        None \<Rightarrow> Inl (Error (''action in an unsupported context: '' @ name))
      | Some escapers \<Rightarrow>
          (case escapeTemplate c nodes of
             Inl err \<Rightarrow> Inl err
           | Inr cmds \<Rightarrow> Inr (WriteField name escapers # cmds)))"

fun applyEscaper :: "escaper \<Rightarrow> string \<Rightarrow> string" where
  "applyEscaper html_template_htmlescaper s = htmlEscaper s"
| "applyEscaper html_template_attrescaper s = attrEscaper s"
| "applyEscaper html_template_urlfilter s = urlFilter s"
| "applyEscaper html_template_urlnormalizer s = urlNormalizer s"
| "applyEscaper html_template_urlescaper s = urlEscaper s"

text \<open>
  Execution writes the text and the escaped field values in order; a field that the
  data does not have is an error.
\<close>

fun execute :: "(string \<Rightarrow> string option) \<Rightarrow> command list \<Rightarrow> error + string" where
  "execute dat [] = Inr []"
| "execute dat (WriteText s # cmds) =
     (case execute dat cmds of Inl err \<Rightarrow> Inl err | Inr out \<Rightarrow> Inr (s @ out))"
| "execute dat (WriteField name escapers # cmds) =
     (case dat name of
        None \<Rightarrow> Inl (Error (''can't evaluate field '' @ name))
      | Some v \<Rightarrow>
          (case execute dat cmds of
             Inl err \<Rightarrow> Inl err
           | Inr out \<Rightarrow> Inr (foldl (\<lambda>v e. applyEscaper e v) v escapers @ out)))"

definition Execute :: "node list \<Rightarrow> (string \<Rightarrow> string option) \<Rightarrow> error + string" where
  "Execute tpl dat =
     (case escapeTemplate stateText tpl of Inl err \<Rightarrow> Inl err | Inr cmds \<Rightarrow> execute dat cmds)"

section \<open>The two services\<close>

text \<open>
  The audio attachment of a chat message, the message and the update that brings it. An
  update carries a new message, or an edited one, or something else (then both fields
  are nil). Of the rest of an update the model keeps its floating-point numbers (the
  coordinates of a location, for one), the values on which the JSON encoder can fail:
  \<open>Finite m x\<close> is the number \<open>m\<close> times two to the power \<open>x\<close>.
\<close>

record audio =
  Title :: string
  Performer :: string
  FileName :: string

record message =
  Audio :: "audio option"

datatype float64 = Finite int int | NaN | PosInf | NegInf

record update =
  Message :: "message option"
  EditedMessage :: "message option"
  Floats :: "float64 list"

record inlineKeyboardButton =
  Text :: string
  Url :: string

record linkPreviewOptions =
  PreferSmallMedia :: bool
  ShowAboveText :: bool

record sendMessageOpts =
  ParseMode :: string
  LinkPreviewOptions :: "linkPreviewOptions option"
  InlineKeyboard :: "inlineKeyboardButton list list"

text \<open>
  The catalog's answer to a track search: a pointer to a page with the total number of
  matches the service reports and the tracks of the page. The pointer is nil when the
  answer holds no page of tracks. Nothing in the types ties the total to the list.
\<close>

record simpleArtist =
  artist_Name :: string

record fullTrack =
  Name :: string
  Artists :: "simpleArtist list"
  ExternalURLs :: "string \<rightharpoonup> string"

record fullTrackPage =
  Total :: int
  Tracks :: "fullTrack list"

record searchResult =
  TracksPage :: "fullTrackPage option"

text \<open>
  What a handler does to the outside world, in order: a catalog search, a reply to the
  chat (text and options, \<open>None\<close> for nil options), a line in the log.
\<close>

datatype effect =
    Search string
  | Reply string "sendMessageOpts option"
  | LogError string error
  | LogDebug string string

text \<open>
  What the outside world answers. A failing call of one of the two services gives the
  message of its error (\<open>Inl\<close>, \<open>Some\<close>). \<open>jsonText\<close> is the JSON text of an update that
  the encoder can write.
\<close>

record env =
  spotifySearch :: "string \<Rightarrow> string + searchResult"
  sendMessage :: "string \<Rightarrow> sendMessageOpts option \<Rightarrow> string option"
  debugLevelEnabled :: bool
  jsonText :: "update \<Rightarrow> string"

text \<open>
  \<open>json.Marshal\<close> on an update: JSON has no notation for a number that is not finite,
  and the encoder returns an error at the first such number. Every other part of an
  update is encoded.
\<close>

definition unsupportedValue :: "float64 \<Rightarrow> string option" where
  "unsupportedValue f =
     (case f of Finite m x \<Rightarrow> None | NaN \<Rightarrow> Some ''NaN''
      | PosInf \<Rightarrow> Some ''+Inf'' | NegInf \<Rightarrow> Some ''-Inf'')"

definition jsonMarshal :: "env \<Rightarrow> update \<Rightarrow> string + string" where
  "jsonMarshal e u =
     (case List.map_filter unsupportedValue (Floats u) of
        [] \<Rightarrow> Inr (jsonText e u)
      | v # _ \<Rightarrow> Inl (''json: unsupported value: '' @ v))"

text \<open>
  The updates that the program receives are decoded from the JSON text that the chat
  platform sends, so every number in them is finite.
\<close>

definition decodedFromJSON :: "update \<Rightarrow> bool" where
  "decodedFromJSON u = list_all (\<lambda>f. unsupportedValue f = None) (Floats u)"

text \<open>A handler returns an error or nil, or panics.\<close>

datatype outcome = Returned "error option" | Panicked

section \<open>The program\<close>

text \<open>\<open>buildSpotifyUserSearchURL\<close>: the base URL, a slash and the escaped query.\<close>

definition buildSpotifyUserSearchURL :: "string \<Rightarrow> string" where
  "buildSpotifyUserSearchURL query =
     (let baseURL = ''https://open.spotify.com/search'' in baseURL @ ''/'' @ PathEscape query)"

record trackData =
  td_Name :: string
  td_Artists :: string
  td_URL :: string

text \<open>The exported fields of \<open>trackData\<close>, as the template engine finds them by name.\<close>

definition trackDataField :: "trackData \<Rightarrow> string \<Rightarrow> string option" where
  "trackDataField td name =
     (if name = ''Name'' then Some (td_Name td)
      else if name = ''Artists'' then Some (td_Artists td)
      else if name = ''URL'' then Some (td_URL td)
      else None)"

definition trackTemplate :: string where
  \<open>trackTemplate = ''<a href="{{.URL}}">{{.Name}}</a>'' @ [CHR 0x0A] @ ''by <b>{{.Artists}}</b>''\<close>

text \<open>Indexing a Go map of strings: a key that the map does not hold reads as \<open>""\<close>.\<close>

definition mapIndex :: "(string \<rightharpoonup> string) \<Rightarrow> string \<Rightarrow> string" where
  "mapIndex m k = (case m k of None \<Rightarrow> [] | Some v \<Rightarrow> v)"

text \<open>
  \<open>buildResultText\<close>: the names of the artists joined, the template parsed and
  executed on the name, the artists and the track's Spotify URL.
\<close>

definition buildResultText :: "fullTrack \<Rightarrow> error + string" where
  "buildResultText track =
     (let artists = map artist_Name (Artists track) in
      case Parse trackTemplate of
        Inl err \<Rightarrow> Inl err
      | Inr tpl \<Rightarrow>
          let td = \<lparr>td_Name = Name track,
                    td_Artists = Join artists '', '',
                    td_URL = mapIndex (ExternalURLs track) ''spotify''\<rparr>
          in Execute tpl (trackDataField td))"

text \<open>\<open>checkSendMsgErr\<close> logs the error of a reply that could not be sent.\<close>

definition checkSendMsgErr :: "string option \<Rightarrow> effect list" where
  "checkSendMsgErr err =
     (case err of None \<Rightarrow> [] | Some e \<Rightarrow> [LogError ''Failed to send message'' (Error e)])"

text \<open>
  Lines 198 to 206 of \<open>handleAudioMessage\<close>: the query, from the title and the
  performer, or else from the file name.
\<close>

definition audioQuery :: "audio \<Rightarrow> string" where
  "audioQuery a =
     (let title = TrimSpace (Title a);
          author = TrimSpace (Performer a);
          query = TrimSpace (title @ '' '' @ author)
      in if query = [] then TrimSpace (TrimSuffix (FileName a) ''.mp3'') else query)"

definition searchBtn :: "string \<Rightarrow> inlineKeyboardButton" where
  "searchBtn query = \<lparr>Text = ''Search'', Url = buildSpotifyUserSearchURL query\<rparr>"

definition noResultsOpts :: "string \<Rightarrow> sendMessageOpts" where
  "noResultsOpts query =
     \<lparr>ParseMode = [], LinkPreviewOptions = None, InlineKeyboard = [[searchBtn query]]\<rparr>"

definition resultOpts :: "string \<Rightarrow> sendMessageOpts" where
  "resultOpts query =
     \<lparr>ParseMode = ''HTML'',
      LinkPreviewOptions = Some \<lparr>PreferSmallMedia = True, ShowAboveText = True\<rparr>,
      InlineKeyboard = [[searchBtn query]]\<rparr>"

text \<open>
  \<open>handleAudioMessage\<close>. The handler is registered for messages with an audio
  attachment; reading the attachment of a message without one would panic, and so do
  reading the total of a page that is nil and reading the first track of an empty
  page.
\<close>

definition handleAudioMessage :: "env \<Rightarrow> message \<Rightarrow> effect list \<times> outcome" where
  "handleAudioMessage e msg =
     (case Audio msg of
        None \<Rightarrow> ([], Panicked)
      | Some a \<Rightarrow>
          let query = audioQuery a in
          if query = [] then
            (let errSendMsg = sendMessage e ''Audio metadata or filename is missing.'' None in
             (Reply ''Audio metadata or filename is missing.'' None # checkSendMsgErr errSendMsg,
              Returned (Some (Error ''audio metadata or filename is missing''))))
          else
            (case spotifySearch e query of
               Inl err \<Rightarrow>
                 (let errSendMsg = sendMessage e ''Failed to search Spotify.'' None in
                  (Search query # Reply ''Failed to search Spotify.'' None
                     # checkSendMsgErr errSendMsg,
                   Returned (Some (Error err))))
             | Inr results \<Rightarrow>
                 (case TracksPage results of
                    None \<Rightarrow> ([Search query], Panicked)
                  | Some page \<Rightarrow>
                      if Total page = 0 then
                        (let text = ''No results found on Spotify by query `'' @ query @ ''`'';
                             opts = Some (noResultsOpts query)
                         in ([Search query, Reply text opts],
                             Returned (map_option Error (sendMessage e text opts))))
                      else
                        (case Tracks page of
                           [] \<Rightarrow> ([Search query], Panicked)
                         | track # _ \<Rightarrow>
                             (case buildResultText track of
                                Inl err \<Rightarrow> ([Search query], Returned (Some err))
                              | Inr text \<Rightarrow>
                                  (let opts = Some (resultOpts query)
                                   in ([Search query, Reply text opts],
                                       Returned (map_option Error (sendMessage e text opts)))))))))"

text \<open>\<open>handleUnknownMessage\<close>: the one reply of the catch-all handler.\<close>

definition handleUnknownMessage :: "env \<Rightarrow> message \<Rightarrow> effect list \<times> outcome" where
  "handleUnknownMessage e msg =
     (let text = ''Send me an audio file to search on Spotify.''
      in ([Reply text None], Returned (map_option Error (sendMessage e text None))))"

text \<open>
  The observer \<open>HandleAnything\<close>: it accepts every update, logs it at debug level and
  returns \<open>ContinueGroups\<close>; when the update cannot be encoded it returns that error,
  wrapped.
\<close>

definition HandleAnything_CheckUpdate :: "update \<Rightarrow> bool" where
  "HandleAnything_CheckUpdate u = True"

definition HandleAnything_HandleUpdate :: "env \<Rightarrow> update \<Rightarrow> effect list \<times> outcome" where
  "HandleAnything_HandleUpdate e u =
     (if debugLevelEnabled e then
        (case jsonMarshal e u of
           Inl err \<Rightarrow> ([], Returned (Some (Error (''failed to marshal update: '' @ err))))
         | Inr raw \<Rightarrow> ([LogDebug ''Handling update'' raw], Returned (Some ContinueGroups)))
      else ([], Returned (Some ContinueGroups)))"

subsection \<open>The dispatcher\<close>

text \<open>
  The bot library's dispatcher keeps its handlers in groups and visits the groups in
  the order of their numbers. In a group it runs the first handler that accepts the
  update and then moves to the next group, unless the handler says otherwise:
  \<open>ContinueGroups\<close> tries the handlers that follow in the same group, \<open>EndGroups\<close>
  stops the whole iteration, and any other error is given to the dispatcher's error
  function, which answers with one of three actions. A panic is recovered and ends the
  handling of the update.
\<close>

record handler =
  CheckUpdate :: "update \<Rightarrow> bool"
  HandleUpdate :: "env \<Rightarrow> update \<Rightarrow> effect list \<times> outcome"

datatype dispatcherAction =
  DispatcherActionNoop | DispatcherActionContinueGroups | DispatcherActionEndGroups

text \<open>The error function that \<open>main\<close> gives the dispatcher.\<close>

definition dispatcherError :: "error \<Rightarrow> effect list \<times> dispatcherAction" where
  "dispatcherError err =
     ([LogError ''An error occurred while handling update'' err], DispatcherActionEndGroups)"

text \<open>
  One group: the effects, and whether the iteration goes on with the next group.
\<close>

fun iterateGroup :: "env \<Rightarrow> handler list \<Rightarrow> update \<Rightarrow> effect list \<times> bool" where
  "iterateGroup e [] u = ([], True)"
| "iterateGroup e (h # hs) u =
     (if \<not> CheckUpdate h u then iterateGroup e hs u
      else
        (case HandleUpdate h e u of
           (effs, Panicked) \<Rightarrow> (effs, False)
         | (effs, Returned None) \<Rightarrow> (effs, True)
         | (effs, Returned (Some ContinueGroups)) \<Rightarrow>
             (case iterateGroup e hs u of (effs', go) \<Rightarrow> (effs @ effs', go))
         | (effs, Returned (Some EndGroups)) \<Rightarrow> (effs, False)
         | (effs, Returned (Some err)) \<Rightarrow>
             (case dispatcherError err of
                (logged, DispatcherActionNoop) \<Rightarrow> (effs @ logged, True)
              | (logged, DispatcherActionContinueGroups) \<Rightarrow>
                  (case iterateGroup e hs u of (effs', go) \<Rightarrow> (effs @ logged @ effs', go))
              | (logged, DispatcherActionEndGroups) \<Rightarrow> (effs @ logged, False))))"

fun iterateOverHandlerGroups :: "env \<Rightarrow> handler list list \<Rightarrow> update \<Rightarrow> effect list" where
  "iterateOverHandlerGroups e [] u = []"
| "iterateOverHandlerGroups e (g # gs) u =
     (case iterateGroup e g u of
        (effs, go) \<Rightarrow> if go then effs @ iterateOverHandlerGroups e gs u else effs)"

text \<open>
  The message that a handler finds in its context as \<open>EffectiveMessage\<close>: the new
  message of the update, or else the edited one.
\<close>

definition EffectiveMessage :: "update \<Rightarrow> message option" where
  "EffectiveMessage u = (case Message u of Some msg \<Rightarrow> Some msg | None \<Rightarrow> EditedMessage u)"

text \<open>
  \<open>handlers.NewMessage\<close>: a handler for updates that carry a new message accepted by
  the filter; it does not take edited messages. \<open>message.Audio\<close> accepts a message
  with an audio attachment, \<open>message.All\<close> every message.
\<close>

definition NewMessage ::
  "(message \<Rightarrow> bool) \<Rightarrow> (env \<Rightarrow> message \<Rightarrow> effect list \<times> outcome) \<Rightarrow> handler" where
  "NewMessage accepts response =
     \<lparr>CheckUpdate = (\<lambda>u. case Message u of None \<Rightarrow> False | Some msg \<Rightarrow> accepts msg),
      HandleUpdate = (\<lambda>e u. case EffectiveMessage u of
                                None \<Rightarrow> ([], Panicked) | Some msg \<Rightarrow> response e msg)\<rparr>"

definition message_Audio :: "message \<Rightarrow> bool" where
  "message_Audio msg = (Audio msg \<noteq> None)"

definition message_All :: "message \<Rightarrow> bool" where
  "message_All msg = True"

text \<open>
  The handlers as \<open>main\<close> registers them: the observer in group -1, the audio
  handler and then the catch-all in group 0.
\<close>

definition HandleAnything :: handler where
  "HandleAnything =
     \<lparr>CheckUpdate = HandleAnything_CheckUpdate, HandleUpdate = HandleAnything_HandleUpdate\<rparr>"

definition groupZero :: "handler list" where
  "groupZero =
     [NewMessage message_Audio handleAudioMessage, NewMessage message_All handleUnknownMessage]"

definition ProcessUpdate :: "env \<Rightarrow> update \<Rightarrow> effect list" where
  "ProcessUpdate e u = iterateOverHandlerGroups e [[HandleAnything], groupZero] u"

section \<open>Notions used in the statements\<close>

text \<open>
  Escaped text holds none of the characters \<open><\<close>, \<open>>\<close> and \<open>"\<close>, and every
  \<open>&\<close> in it starts one of the six character references that the escaper writes.
  \<open>htmlUnescape\<close> reads such text the way an HTML parser does, replacing the six
  references by the characters they stand for.
\<close>

definition entityNames :: "string list" where
  "entityNames = [''amp;'', ''lt;'', ''gt;'', ''#34;'', ''#39;'', ''#43;'']"

fun wellEscaped :: "string \<Rightarrow> bool" where
  "wellEscaped [] = True"
| \<open>wellEscaped (c # s) =
     ((if c = CHR ''&'' then list_ex (\<lambda>n. prefix n s) entityNames
       else c \<noteq> CHR ''<'' \<and> c \<noteq> CHR ''>'' \<and> c \<noteq> CHR 0x22)
      \<and> wellEscaped s)\<close>

fun htmlUnescape :: "string \<Rightarrow> string" where
  "htmlUnescape [] = []"
| \<open>htmlUnescape (c # s) =
     (if c = CHR ''&'' \<and> prefix ''amp;'' s then CHR ''&'' # htmlUnescape (drop 4 s)
      else if c = CHR ''&'' \<and> prefix ''lt;'' s then CHR ''<'' # htmlUnescape (drop 3 s)
      else if c = CHR ''&'' \<and> prefix ''gt;'' s then CHR ''>'' # htmlUnescape (drop 3 s)
      else if c = CHR ''&'' \<and> prefix ''#34;'' s then CHR 0x22 # htmlUnescape (drop 4 s)
      else if c = CHR ''&'' \<and> prefix ''#39;'' s then CHR 0x27 # htmlUnescape (drop 4 s)
      else if c = CHR ''&'' \<and> prefix ''#43;'' s then CHR ''+'' # htmlUnescape (drop 4 s)
      else c # htmlUnescape s)\<close>

text \<open>The text that the template gives for a track.\<close>

definition renderTrack :: "fullTrack \<Rightarrow> string" where
  \<open>renderTrack track =
     ''<a href="''
     @ attrEscaper (urlNormalizer (urlFilter (mapIndex (ExternalURLs track) ''spotify'')))
     @ ''">'' @ htmlEscaper (Name track) @ ''</a>'' @ [CHR 0x0A] @ ''by <b>''
     @ htmlEscaper (Join (map artist_Name (Artists track)) '', '') @ ''</b>''\<close>

fun isReply :: "effect \<Rightarrow> bool" where
  "isReply (Reply text opts) = True"
| "isReply _ = False"

text \<open>
  The effects of a group in which a handler ran and ended the group: its own, and the
  line that the dispatcher's error function logs when it returned an error.
\<close>

definition afterHandler :: "effect list \<times> outcome \<Rightarrow> effect list" where
  "afterHandler r =
     (case snd r of
        Returned (Some err) \<Rightarrow> fst r @ [LogError ''An error occurred while handling update'' err]
      | _ \<Rightarrow> fst r)"

subsection \<open>Example inputs\<close>

definition exampleAudio :: audio where
  "exampleAudio =
     \<lparr>Title = ''  Imagine  '', Performer = '' John Lennon '', FileName = ''whatever.mp3''\<rparr>"

definition exampleTrack :: fullTrack where
  "exampleTrack =
     \<lparr>Name = ''Imagine'',
      Artists = [\<lparr>artist_Name = ''John Lennon''\<rparr>, \<lparr>artist_Name = ''Yoko Ono''\<rparr>],
      ExternalURLs = [''spotify'' \<mapsto> ''https://open.spotify.com/track/7pKfPomDEeI4TPT6EOYjn9'']\<rparr>"

definition otherTrack :: fullTrack where
  "otherTrack =
     \<lparr>Name = ''Imagine (cover)'', Artists = [\<lparr>artist_Name = ''A Perfect Circle''\<rparr>],
      ExternalURLs = [''spotify'' \<mapsto> ''https://open.spotify.com/track/0000000000000000000000'']\<rparr>"

definition markupTrack :: fullTrack where
  \<open>markupTrack =
     \<lparr>Name = ''<b>Rock & Roll</b> "live"'',
      Artists = [\<lparr>artist_Name = ''Simon & Garfunkel''\<rparr>, \<lparr>artist_Name = ''<i>''\<rparr>],
      ExternalURLs = [''spotify'' \<mapsto> ''https://open.spotify.com/track/1?a="x"&b=<y>'']\<rparr>\<close>

text \<open>
  An environment in which the catalog answers every search with the given page, one in
  which its answer holds no page, and both with every reply delivered and the debug
  level enabled.
\<close>

definition exampleEnv :: "fullTrackPage \<Rightarrow> env" where
  "exampleEnv page =
     \<lparr>spotifySearch = (\<lambda>query. Inr \<lparr>TracksPage = Some page\<rparr>),
      sendMessage = (\<lambda>text opts. None),
      debugLevelEnabled = True,
      jsonText = (\<lambda>u. ''{}'')\<rparr>"

definition noPageEnv :: env where
  "noPageEnv =
     \<lparr>spotifySearch = (\<lambda>query. Inr \<lparr>TracksPage = None\<rparr>),
      sendMessage = (\<lambda>text opts. None),
      debugLevelEnabled = True,
      jsonText = (\<lambda>u. ''{}'')\<rparr>"

text \<open>
  A new text message, a new audio message, the same two as edited messages, and an
  update built by hand that holds a number that is not finite.
\<close>

definition textUpdate :: update where
  "textUpdate = \<lparr>Message = Some \<lparr>Audio = None\<rparr>, EditedMessage = None, Floats = []\<rparr>"

definition audioUpdate :: update where
  "audioUpdate =
     \<lparr>Message = Some \<lparr>Audio = Some exampleAudio\<rparr>, EditedMessage = None, Floats = []\<rparr>"

definition editedTextUpdate :: update where
  "editedTextUpdate =
     \<lparr>Message = None, EditedMessage = Some \<lparr>Audio = None\<rparr>, Floats = []\<rparr>"

definition editedAudioUpdate :: update where
  "editedAudioUpdate =
     \<lparr>Message = None, EditedMessage = Some \<lparr>Audio = Some exampleAudio\<rparr>, Floats = []\<rparr>"

definition handBuiltUpdate :: update where
  "handBuiltUpdate =
     \<lparr>Message = Some \<lparr>Audio = None\<rparr>, EditedMessage = None, Floats = [Finite 1 0, NaN]\<rparr>"

section \<open>Properties of trimming\<close>

text \<open>A blank string is a sequence of white-space runes.\<close>

definition blank :: "string \<Rightarrow> bool" where
  "blank s = (\<exists>es. set es \<subseteq> set spaceRunes \<and> s = concat es)"

lemma blank_Nil: "blank []"
  unfolding blank_def by (rule exI [of _ "[]"]) simp

lemma blank_rune: "e \<in> set spaceRunes \<Longrightarrow> blank e"
  unfolding blank_def by (rule exI [of _ "[e]"]) simp

lemma blank_append: "blank u \<Longrightarrow> blank v \<Longrightarrow> blank (u @ v)"
proof -
  assume "blank u" "blank v"
  then obtain es fs where "set es \<subseteq> set spaceRunes" "u = concat es"
    "set fs \<subseteq> set spaceRunes" "v = concat fs"
    unfolding blank_def by blast
  then have "set (es @ fs) \<subseteq> set spaceRunes \<and> u @ v = concat (es @ fs)" by simp
  then show ?thesis unfolding blank_def by blast
qed

lemma leadingSpace_zero_iff: "leadingSpace s = 0 \<longleftrightarrow> (\<forall>e \<in> set spaceRunes. \<not> prefix e s)"
proof
  assume z: "leadingSpace s = 0"
  show "\<forall>e \<in> set spaceRunes. \<not> prefix e s"
  proof (cases "List.find (\<lambda>e. prefix e s) spaceRunes")
    case None
    then show ?thesis by (simp add: find_None_iff)
  next
    case (Some e)
    then have "e \<in> set spaceRunes" by (auto simp: find_Some_iff)
    then have "e \<noteq> []" by (rule spaceRunes_nonempty)
    with Some z show ?thesis by (simp add: leadingSpace_def)
  qed
next
  assume "\<forall>e \<in> set spaceRunes. \<not> prefix e s"
  then have "List.find (\<lambda>e. prefix e s) spaceRunes = None" by (simp add: find_None_iff)
  then show "leadingSpace s = 0" by (simp add: leadingSpace_def)
qed

lemma blank_leadingSpace:
  assumes "blank s" "s \<noteq> []"
  shows "leadingSpace s \<noteq> 0"
proof -
  from assms obtain es where es: "set es \<subseteq> set spaceRunes" "s = concat es"
    unfolding blank_def by blast
  with assms(2) obtain e es' where "es = e # es'" by (cases es) auto
  with es have "e \<in> set spaceRunes" "prefix e s" by auto
  then show ?thesis by (auto simp: leadingSpace_zero_iff)
qed

lemma TrimLeft_split: "\<exists>w. blank w \<and> s = w @ TrimLeft s"
proof (induction s rule: TrimLeft.induct)
  case (1 s)
  show ?case
  proof (cases "leadingSpace s = 0")
    case True
    then have "TrimLeft s = s" by simp
    then show ?thesis using blank_Nil by (intro exI [of _ "[]"]) simp
  next
    case False
    then obtain e where e: "e \<in> set spaceRunes" "prefix e s" "leadingSpace s = length e"
      using leadingSpace_pos by blast
    from False have tl: "TrimLeft s = TrimLeft (drop (length e) s)" using e(3) by simp
    from "1.IH" [OF False] obtain w where w: "blank w" "drop (length e) s = w @ TrimLeft (drop (length e) s)"
      using e(3) by auto
    from e(2) have "s = e @ drop (length e) s" by (auto simp: prefix_def)
    with w(2) tl have "s = (e @ w) @ TrimLeft s" by (metis append.assoc)
    moreover have "blank (e @ w)" using e(1) w(1) by (simp add: blank_append blank_rune)
    ultimately show ?thesis by blast
  qed
qed

lemma leadingSpace_TrimLeft: "leadingSpace (TrimLeft s) = 0"
proof (induction s rule: TrimLeft.induct)
  case (1 s)
  show ?case
  proof (cases "leadingSpace s = 0")
    case True
    then show ?thesis by simp
  next
    case False
    with "1.IH" show ?thesis by simp
  qed
qed

lemma TrimRight_split: "\<exists>w. blank w \<and> s = TrimRight s @ w"
proof (induction s rule: TrimRight.induct)
  case (1 s)
  show ?case
  proof (cases "trailingSpace s = 0")
    case True
    then have "TrimRight s = s" by simp
    then show ?thesis using blank_Nil by (intro exI [of _ "[]"]) simp
  next
    case False
    then obtain e where e: "e \<in> set spaceRunes" "suffix e s" "trailingSpace s = length e"
      using trailingSpace_pos by blast
    let ?r = "take (length s - length e) s"
    from False have tr: "TrimRight s = TrimRight ?r" using e(3) by simp
    from "1.IH" [OF False] obtain w where w: "blank w" "?r = TrimRight ?r @ w"
      using e(3) by auto
    from e(2) have "s = ?r @ e" by (auto simp: suffix_def)
    with w(2) tr have "s = TrimRight s @ (w @ e)" by (metis append.assoc)
    moreover have "blank (w @ e)" using e(1) w(1) by (simp add: blank_append blank_rune)
    ultimately show ?thesis by blast
  qed
qed

lemma TrimSpace_empty_blank:
  assumes "TrimSpace s = []"
  shows "blank s"
proof -
  obtain w where w: "blank w" "s = w @ TrimLeft s" using TrimLeft_split by blast
  obtain v where v: "blank v" "TrimLeft s = TrimRight (TrimLeft s) @ v"
    using TrimRight_split by blast
  from assms v(2) have "TrimLeft s = v" by (metis TrimSpace_def append_Nil)
  with w show ?thesis using blank_append [OF w(1) v(1)] by metis
qed

lemma leadingSpace_TrimSpace: "leadingSpace (TrimSpace s) = 0"
proof -
  obtain v where "TrimLeft s = TrimRight (TrimLeft s) @ v" using TrimRight_split by blast
  then have p: "prefix (TrimSpace s) (TrimLeft s)" unfolding TrimSpace_def by (rule prefixI)
  have "\<forall>e \<in> set spaceRunes. \<not> prefix e (TrimLeft s)"
    using leadingSpace_TrimLeft by (simp add: leadingSpace_zero_iff)
  then have "\<forall>e \<in> set spaceRunes. \<not> prefix e (TrimSpace s)"
    using p prefix_order.trans by blast
  then show ?thesis by (simp add: leadingSpace_zero_iff)
qed

lemma TrimSpace_nonblank:
  assumes "TrimSpace s \<noteq> []"
  shows "\<not> blank (TrimSpace s)"
  using assms blank_leadingSpace leadingSpace_TrimSpace by blast


lemma rune_no_inner_space: "e \<in> set spaceRunes \<Longrightarrow> CHR 0x20 \<notin> set (tl e)"
  by (auto simp: spaceRunes_def)

lemma rune_starting_with_space: "e \<in> set spaceRunes \<Longrightarrow> prefix [CHR 0x20] e \<Longrightarrow> e = [CHR 0x20]"
  by (auto simp: spaceRunes_def)

lemma rune_no_3: "e \<in> set spaceRunes \<Longrightarrow> CHR ''3'' \<notin> set e"
  by (auto simp: spaceRunes_def)

lemma blank_after_space:
  assumes "blank (CHR 0x20 # s)"
  shows "blank s"
proof -
  from assms obtain es where es: "set es \<subseteq> set spaceRunes" "CHR 0x20 # s = concat es"
    unfolding blank_def by blast
  then obtain f fs where f: "es = f # fs" by (cases es) auto
  with es have fr: "f \<in> set spaceRunes" by simp
  then have "f \<noteq> []" by (rule spaceRunes_nonempty)
  with es(2) f have "prefix [CHR 0x20] f" by (cases f) auto
  with fr have "f = [CHR 0x20]" by (rule rune_starting_with_space)
  with es f have "set fs \<subseteq> set spaceRunes \<and> s = concat fs" by simp
  then show ?thesis unfolding blank_def by blast
qed

lemma query_nonempty:
  assumes "TrimSpace t \<noteq> [] \<or> TrimSpace p \<noteq> []"
  shows "TrimSpace (TrimSpace t @ '' '' @ TrimSpace p) \<noteq> []"
proof
  let ?T = "TrimSpace t" and ?P = "TrimSpace p"
  assume "TrimSpace (?T @ '' '' @ ?P) = []"
  then have b: "blank (?T @ '' '' @ ?P)" by (rule TrimSpace_empty_blank)
  show False
  proof (cases "?T = []")
    case True
    with b have "blank (CHR 0x20 # ?P)" by simp
    then have "blank ?P" by (rule blank_after_space)
    moreover from True assms have "?P \<noteq> []" by simp
    ultimately show False using TrimSpace_nonblank by blast
  next
    case False
    from b have "leadingSpace (?T @ '' '' @ ?P) \<noteq> 0" by (rule blank_leadingSpace) simp
    then obtain e where e: "e \<in> set spaceRunes" "prefix e (?T @ '' '' @ ?P)"
      using leadingSpace_pos by blast
    have "\<forall>e \<in> set spaceRunes. \<not> prefix e ?T"
      using leadingSpace_TrimSpace [of t] by (simp add: leadingSpace_zero_iff)
    with e(1) have nT: "\<not> prefix e ?T" by blast
    from e(2) obtain us where us: "e = ?T @ us" "prefix us ('' '' @ ?P)"
      using nT by (auto simp: prefix_append)
    with nT have "us \<noteq> []" by auto
    with us(2) obtain us' where "us = CHR 0x20 # us'" by (cases us) auto
    with us(1) False have "CHR 0x20 \<in> set (tl e)" by (cases ?T) auto
    with e(1) show False using rune_no_inner_space by blast
  qed
qed

lemma TrimSpace_space: "TrimSpace '' '' = []"
  by code_simp

lemma blank_no_mp3:
  assumes "TrimSpace s = []"
  shows "TrimSuffix s ''.mp3'' = s"
proof -
  from assms have "blank s" by (rule TrimSpace_empty_blank)
  then obtain es where es: "set es \<subseteq> set spaceRunes" "s = concat es"
    unfolding blank_def by blast
  have "CHR ''3'' \<notin> set s"
  proof
    assume "CHR ''3'' \<in> set s"
    with es(2) obtain f where "f \<in> set es" "CHR ''3'' \<in> set f" by auto
    with es(1) show False using rune_no_3 by blast
  qed
  moreover have "suffix ''.mp3'' s \<Longrightarrow> CHR ''3'' \<in> set s"
    using set_mono_suffix [of "''.mp3''" s] by auto
  ultimately show ?thesis by (auto simp: TrimSuffix_def)
qed

section \<open>Properties of the URL escaping\<close>

lemma upperhex_all: "\<forall>k \<in> set [0..<16]. ishex (upperhex ! k) \<and> unhex (upperhex ! k) = k"
  by code_simp

lemma upperhex_digit:
  assumes "k < 16"
  shows "ishex (upperhex ! k) \<and> unhex (upperhex ! k) = k"
proof -
  have "k \<in> set [0..<16]" using assms by simp
  then show ?thesis using upperhex_all by blast
qed

lemma byte_less_256: "byte c < 256"
  by (simp add: byte_def)

lemma hex_pair_byte:
  "char_of (unhex (upperhex ! (byte c div 16)) * 16 + unhex (upperhex ! (byte c mod 16))) = c"
proof -
  have "byte c div 16 < 16" using byte_less_256 [of c] by simp
  moreover have "byte c mod 16 < 16" by simp
  ultimately have
    "unhex (upperhex ! (byte c div 16)) * 16 + unhex (upperhex ! (byte c mod 16)) = byte c"
    by (simp add: upperhex_digit)
  then show ?thesis by (simp add: byte_def)
qed

lemma percent_is_escaped: "shouldEscape (CHR ''%'')"
  by (simp add: shouldEscape_def isAlnum_def byte_def)

lemma unescapeCheck_escape: "unescapeCheck (escape s) = None"
proof (induction s)
  case Nil
  show ?case by simp
next
  case (Cons c s)
  show ?case
  proof (cases "shouldEscape c")
    case True
    have "byte c div 16 < 16" using byte_less_256 [of c] by simp
    moreover have "byte c mod 16 < 16" by simp
    ultimately show ?thesis using True Cons.IH by (simp add: upperhex_digit)
  next
    case False
    then have "c \<noteq> CHR ''%''" using percent_is_escaped by auto
    then show ?thesis using False Cons.IH by simp
  qed
qed

lemma unescapeBuild_escape: "unescapeBuild (escape s) = s"
proof (induction s)
  case Nil
  show ?case by simp
next
  case (Cons c s)
  show ?case
  proof (cases "shouldEscape c")
    case True
    then show ?thesis using Cons.IH by (simp add: hex_pair_byte)
  next
    case False
    then have "c \<noteq> CHR ''%''" using percent_is_escaped by auto
    then show ?thesis using False Cons.IH by simp
  qed
qed

text \<open>
  C9. Round trip: the search link is the fixed prefix followed by the escaped query,
  and decoding that escaped path segment gives the query back, whatever bytes it holds
  (space, \<open>&\<close> and \<open>?\<close> among them).
\<close>

theorem search_url_round_trip:
  "buildSpotifyUserSearchURL query = ''https://open.spotify.com/search/'' @ PathEscape query
   \<and> PathUnescape (PathEscape query) = Inr query"
  by (simp add: buildSpotifyUserSearchURL_def PathUnescape_def PathEscape_def
      unescapeCheck_escape unescapeBuild_escape)

theorem search_url_round_trip_witness:
  "buildSpotifyUserSearchURL ''rock & roll?'' = ''https://open.spotify.com/search/rock%20&%20roll%3F''
   \<and> PathUnescape ''rock%20&%20roll%3F'' = Inr ''rock & roll?''"
proof -
  have p: "PathEscape ''rock & roll?'' = ''rock%20&%20roll%3F''" by code_simp
  from search_url_round_trip [of "''rock & roll?''"] show ?thesis unfolding p by simp
qed

section \<open>Properties of the rendering\<close>

text \<open>
  The program's template parses into four pieces of text and three field actions; the
  URL lands in a double-quoted URL attribute, the name and the artists in text nodes.
\<close>

lemma Parse_trackTemplate:
  \<open>Parse trackTemplate =
     Inr [TextNode ''<a href="'', ActionNode ''URL'', TextNode ''">'', ActionNode ''Name'',
          TextNode (''</a>'' @ [CHR 0x0A] @ ''by <b>''), ActionNode ''Artists'', TextNode ''</b>'']\<close>
  by code_simp

lemma escape_trackTemplate:
  \<open>escapeTemplate stateText
     [TextNode ''<a href="'', ActionNode ''URL'', TextNode ''">'', ActionNode ''Name'',
      TextNode (''</a>'' @ [CHR 0x0A] @ ''by <b>''), ActionNode ''Artists'', TextNode ''</b>''] =
   Inr [WriteText ''<a href="'',
        WriteField ''URL''
          [html_template_urlfilter, html_template_urlnormalizer, html_template_attrescaper],
        WriteText ''">'', WriteField ''Name'' [html_template_htmlescaper],
        WriteText (''</a>'' @ [CHR 0x0A] @ ''by <b>''),
        WriteField ''Artists'' [html_template_htmlescaper], WriteText ''</b>'']\<close>
  by code_simp

lemma buildResultText_eq:
  \<open>buildResultText track =
     Inr (''<a href="'' @ attrEscaper (urlNormalizer (urlFilter (mapIndex (ExternalURLs track) ''spotify'')))
          @ ''">'' @ htmlEscaper (Name track) @ ''</a>'' @ [CHR 0x0A] @ ''by <b>''
          @ htmlEscaper (Join (map artist_Name (Artists track)) '', '') @ ''</b>'')\<close>
proof -
  have \<open>buildResultText track =
      execute (trackDataField \<lparr>td_Name = Name track,
                 td_Artists = Join (map artist_Name (Artists track)) '', '',
                 td_URL = mapIndex (ExternalURLs track) ''spotify''\<rparr>)
        [WriteText ''<a href="'',
         WriteField ''URL''
           [html_template_urlfilter, html_template_urlnormalizer, html_template_attrescaper],
         WriteText ''">'', WriteField ''Name'' [html_template_htmlescaper],
         WriteText (''</a>'' @ [CHR 0x0A] @ ''by <b>''),
         WriteField ''Artists'' [html_template_htmlescaper], WriteText ''</b>'']\<close>
    by (simp only: buildResultText_def Parse_trackTemplate Let_def sum.case Execute_def
        escape_trackTemplate)
  then show ?thesis by (simp add: trackDataField_def)
qed

lemma buildResultText_render: "buildResultText track = Inr (renderTrack track)"
  by (simp add: buildResultText_eq renderTrack_def)

lemma wellEscaped_htmlReplacer: "wellEscaped (htmlReplacer s)"
proof (induction s)
  case Nil
  show ?case by simp
next
  case (Cons c s)
  then show ?case by (simp add: htmlReplacementTable_def entityNames_def)
qed

lemma htmlUnescape_htmlReplacer:
  "CHR 0x00 \<notin> set s \<Longrightarrow> htmlUnescape (htmlReplacer s) = s"
proof (induction s)
  case Nil
  show ?case by simp
next
  case (Cons c s)
  then show ?case by (auto simp: htmlReplacementTable_def)
qed

lemma lowerhex_all: "\<forall>k \<in> set [0..<16]. lowerhex ! k \<noteq> CHR 0x00"
  by code_simp

lemma lowerhex_not_nul: "k < 16 \<Longrightarrow> lowerhex ! k \<noteq> CHR 0x00"
  using lowerhex_all by simp

lemma isAlnum_not_nul: "isAlnum c \<Longrightarrow> c \<noteq> CHR 0x00"
  by (auto simp: isAlnum_def byte_def)

lemma processURLOnto_no_nul: "CHR 0x00 \<notin> set (processURLOnto norm s)"
proof (induction s)
  case Nil
  show ?case by simp
next
  case (Cons c s)
  have "byte c div 16 < 16" using byte_less_256 [of c] by simp
  then have hi: "CHR 0x00 \<noteq> lowerhex ! (byte c div 16)"
    using lowerhex_not_nul by metis
  have "byte c mod 16 < 16" by simp
  then have lo: "CHR 0x00 \<noteq> lowerhex ! (byte c mod 16)"
    using lowerhex_not_nul by metis
  show ?case using Cons hi lo isAlnum_not_nul [of c] by auto
qed

text \<open>
  C10. For every track, whatever its name, its artists (none at all included) and its
  map of external URLs, \<open>buildResultText\<close> returns a text and no error; when the map
  has no entry for \<open>spotify\<close> the link target of that text is empty.
\<close>

theorem rendering_never_fails:
  \<open>(\<exists>text. buildResultText track = Inr text)
   \<and> (ExternalURLs track ''spotify'' = None \<longrightarrow>
        (\<exists>rest. buildResultText track = Inr (''<a href="">'' @ rest)))\<close>
proof -
  have "attrEscaper (urlNormalizer (urlFilter [])) = []" by code_simp
  then show ?thesis using buildResultText_eq [of track] by (simp add: mapIndex_def)
qed

theorem rendering_never_fails_witness:
  \<open>buildResultText \<lparr>Name = ''Untitled'', Artists = [], ExternalURLs = Map.empty\<rparr> =
     Inr (''<a href="">Untitled</a>'' @ [CHR 0x0A] @ ''by <b></b>'')\<close>
proof -
  let ?t = "\<lparr>Name = ''Untitled'', Artists = [], ExternalURLs = Map.empty\<rparr>"
  have "ExternalURLs ?t ''spotify'' = None" by simp
  with rendering_never_fails [of ?t]
  obtain rest where r: \<open>buildResultText ?t = Inr (''<a href="">'' @ rest)\<close> by blast
  have \<open>renderTrack ?t = ''<a href="">Untitled</a>'' @ [CHR 0x0A] @ ''by <b></b>''\<close>
    by code_simp
  then show ?thesis using r by (simp add: buildResultText_render)
qed

text \<open>
  C6. For every track, the reply text is the template's markup around three escaped
  values: the URL, the track name and the joined artist names. Each escaped value is
  free of \<open><\<close>, \<open>>\<close> and \<open>"\<close> and uses \<open>&\<close> only to start a character
  reference, so the markup of the message is the template's and nothing else; and an
  HTML parser reads each value back as the text that was put in (the URL as filtered
  and normalised; a name provided it holds no NUL byte, which is shown as U+FFFD).
\<close>

theorem rendering_is_escaped:
  \<open>buildResultText track =
     Inr (''<a href="''
          @ attrEscaper (urlNormalizer (urlFilter (mapIndex (ExternalURLs track) ''spotify'')))
          @ ''">'' @ htmlEscaper (Name track) @ ''</a>'' @ [CHR 0x0A] @ ''by <b>''
          @ htmlEscaper (Join (map artist_Name (Artists track)) '', '') @ ''</b>'')
   \<and> wellEscaped (attrEscaper (urlNormalizer (urlFilter (mapIndex (ExternalURLs track) ''spotify''))))
   \<and> wellEscaped (htmlEscaper (Name track))
   \<and> wellEscaped (htmlEscaper (Join (map artist_Name (Artists track)) '', ''))
   \<and> htmlUnescape (attrEscaper (urlNormalizer (urlFilter (mapIndex (ExternalURLs track) ''spotify''))))
       = urlNormalizer (urlFilter (mapIndex (ExternalURLs track) ''spotify''))
   \<and> (CHR 0x00 \<notin> set (Name track) \<longrightarrow> htmlUnescape (htmlEscaper (Name track)) = Name track)
   \<and> (CHR 0x00 \<notin> set (Join (map artist_Name (Artists track)) '', '') \<longrightarrow>
        htmlUnescape (htmlEscaper (Join (map artist_Name (Artists track)) '', ''))
        = Join (map artist_Name (Artists track)) '', '')\<close>
  using buildResultText_eq [of track]
  by (simp add: attrEscaper_def htmlEscaper_def wellEscaped_htmlReplacer
      htmlUnescape_htmlReplacer urlNormalizer_def processURLOnto_no_nul)

theorem rendering_is_escaped_witness:
  \<open>buildResultText markupTrack =
     Inr (''<a href="https://open.spotify.com/track/1?a=%22x%22&amp;b=%3cy%3e">''
          @ ''&lt;b&gt;Rock &amp; Roll&lt;/b&gt; &#34;live&#34;</a>'' @ [CHR 0x0A]
          @ ''by <b>Simon &amp; Garfunkel, &lt;i&gt;</b>'')
   \<and> htmlUnescape ''&lt;b&gt;Rock &amp; Roll&lt;/b&gt; &#34;live&#34;'' = ''<b>Rock & Roll</b> "live"''
   \<and> htmlUnescape ''Simon &amp; Garfunkel, &lt;i&gt;'' = ''Simon & Garfunkel, <i>''\<close>
proof -
  have u: \<open>attrEscaper (urlNormalizer (urlFilter (mapIndex (ExternalURLs markupTrack) ''spotify'')))
      = ''https://open.spotify.com/track/1?a=%22x%22&amp;b=%3cy%3e''\<close>
    by code_simp
  have n: \<open>htmlEscaper (Name markupTrack) = ''&lt;b&gt;Rock &amp; Roll&lt;/b&gt; &#34;live&#34;''\<close>
    by code_simp
  have a: \<open>htmlEscaper (Join (map artist_Name (Artists markupTrack)) '', '')
      = ''Simon &amp; Garfunkel, &lt;i&gt;''\<close>
    by code_simp
  have n0: \<open>CHR 0x00 \<notin> set (Name markupTrack)\<close>
    and n1: \<open>Name markupTrack = ''<b>Rock & Roll</b> "live"''\<close>
    by (simp_all add: markupTrack_def)
  have a1: \<open>Join (map artist_Name (Artists markupTrack)) '', '' = ''Simon & Garfunkel, <i>''\<close>
    by (simp add: markupTrack_def)
  then have a0: \<open>CHR 0x00 \<notin> set (Join (map artist_Name (Artists markupTrack)) '', '')\<close>
    by simp
  from rendering_is_escaped [of markupTrack] n0 a0
  have B: \<open>buildResultText markupTrack =
     Inr (''<a href="''
          @ attrEscaper (urlNormalizer (urlFilter (mapIndex (ExternalURLs markupTrack) ''spotify'')))
          @ ''">'' @ htmlEscaper (Name markupTrack) @ ''</a>'' @ [CHR 0x0A] @ ''by <b>''
          @ htmlEscaper (Join (map artist_Name (Artists markupTrack)) '', '') @ ''</b>'')\<close>
    and N: \<open>htmlUnescape (htmlEscaper (Name markupTrack)) = Name markupTrack\<close>
    and A: \<open>htmlUnescape (htmlEscaper (Join (map artist_Name (Artists markupTrack)) '', ''))
        = Join (map artist_Name (Artists markupTrack)) '', ''\<close>
    by blast+
  from B have \<open>buildResultText markupTrack =
     Inr (''<a href="https://open.spotify.com/track/1?a=%22x%22&amp;b=%3cy%3e">''
          @ ''&lt;b&gt;Rock &amp; Roll&lt;/b&gt; &#34;live&#34;</a>'' @ [CHR 0x0A]
          @ ''by <b>Simon &amp; Garfunkel, &lt;i&gt;</b>'')\<close>
    unfolding u n a by simp
  moreover from N
  have \<open>htmlUnescape ''&lt;b&gt;Rock &amp; Roll&lt;/b&gt; &#34;live&#34;'' = Name markupTrack\<close>
    unfolding n .
  then have \<open>htmlUnescape ''&lt;b&gt;Rock &amp; Roll&lt;/b&gt; &#34;live&#34;''
      = ''<b>Rock & Roll</b> "live"''\<close>
    unfolding n1 .
  moreover from A
  have \<open>htmlUnescape ''Simon &amp; Garfunkel, &lt;i&gt;''
      = Join (map artist_Name (Artists markupTrack)) '', ''\<close>
    unfolding a .
  then have \<open>htmlUnescape ''Simon &amp; Garfunkel, &lt;i&gt;'' = ''Simon & Garfunkel, <i>''\<close>
    unfolding a1 .
  ultimately show ?thesis by blast
qed

section \<open>Properties of the audio handler\<close>

lemma handleAudio_empty:
  assumes "Audio msg = Some a" "audioQuery a = []"
  shows "handleAudioMessage e msg =
     (Reply ''Audio metadata or filename is missing.'' None
        # checkSendMsgErr (sendMessage e ''Audio metadata or filename is missing.'' None),
      Returned (Some (Error ''audio metadata or filename is missing'')))"
  using assms by (simp add: handleAudioMessage_def)

lemma handleAudio_search_failed:
  assumes "Audio msg = Some a" "audioQuery a = q" "q \<noteq> []" "spotifySearch e q = Inl err"
  shows "handleAudioMessage e msg =
     (Search q # Reply ''Failed to search Spotify.'' None
        # checkSendMsgErr (sendMessage e ''Failed to search Spotify.'' None),
      Returned (Some (Error err)))"
  using assms by (simp add: handleAudioMessage_def)

lemma handleAudio_no_page:
  assumes "Audio msg = Some a" "audioQuery a = q" "q \<noteq> []" "spotifySearch e q = Inr r"
    and "TracksPage r = None"
  shows "handleAudioMessage e msg = ([Search q], Panicked)"
  using assms by (simp add: handleAudioMessage_def Let_def)

lemma handleAudio_zero_total:
  assumes "Audio msg = Some a" "audioQuery a = q" "q \<noteq> []" "spotifySearch e q = Inr r"
    and "TracksPage r = Some page" "Total page = 0"
  shows "handleAudioMessage e msg =
     ([Search q,
       Reply (''No results found on Spotify by query `'' @ q @ ''`'') (Some (noResultsOpts q))],
      Returned (map_option Error (sendMessage e
        (''No results found on Spotify by query `'' @ q @ ''`'') (Some (noResultsOpts q)))))"
  using assms by (simp add: handleAudioMessage_def Let_def)

lemma handleAudio_no_first_track:
  assumes "Audio msg = Some a" "audioQuery a = q" "q \<noteq> []" "spotifySearch e q = Inr r"
    and "TracksPage r = Some page" "Total page \<noteq> 0" "Tracks page = []"
  shows "handleAudioMessage e msg = ([Search q], Panicked)"
  using assms by (simp add: handleAudioMessage_def Let_def)

lemma handleAudio_first_track:
  assumes "Audio msg = Some a" "audioQuery a = q" "q \<noteq> []" "spotifySearch e q = Inr r"
    and "TracksPage r = Some page" "Total page \<noteq> 0" "Tracks page = track # rest"
  shows "handleAudioMessage e msg =
     ([Search q, Reply (renderTrack track) (Some (resultOpts q))],
      Returned (map_option Error (sendMessage e (renderTrack track) (Some (resultOpts q)))))"
  using assms by (simp add: handleAudioMessage_def Let_def buildResultText_render)

lemma handler_searches:
  assumes "Audio msg = Some a" "audioQuery a \<noteq> []"
  shows "\<exists>effs out. handleAudioMessage e msg = (Search (audioQuery a) # effs, out)"
  using assms
  by (simp add: handleAudioMessage_def Let_def buildResultText_render
      split: sum.split option.split list.split)

lemma exampleAudio_query: "audioQuery exampleAudio = ''Imagine John Lennon''"
  by code_simp

lemma exampleEnv_search: "spotifySearch (exampleEnv page) q = Inr \<lparr>TracksPage = Some page\<rparr>"
  by (simp add: exampleEnv_def)

lemma exampleEnv_send: "sendMessage (exampleEnv page) text opts = None"
  by (simp add: exampleEnv_def)

text \<open>
  C1. When the trimmed title or the trimmed performer of an audio attachment is not
  empty, the query is the trimmed title, a space and the trimmed performer, trimmed
  once more; it is not empty, and it is what the handler searches the catalog for.
\<close>

theorem query_from_title_and_performer:
  assumes "Audio msg = Some a"
    and "TrimSpace (Title a) \<noteq> [] \<or> TrimSpace (Performer a) \<noteq> []"
  shows "audioQuery a = TrimSpace (TrimSpace (Title a) @ '' '' @ TrimSpace (Performer a))
    \<and> audioQuery a \<noteq> []
    \<and> (\<exists>effs out. handleAudioMessage e msg = (Search (audioQuery a) # effs, out))"
proof -
  have n: "TrimSpace (TrimSpace (Title a) @ '' '' @ TrimSpace (Performer a)) \<noteq> []"
    by (rule query_nonempty [OF assms(2)])
  then have q: "audioQuery a = TrimSpace (TrimSpace (Title a) @ '' '' @ TrimSpace (Performer a))"
    by (simp add: audioQuery_def Let_def)
  with n have "audioQuery a \<noteq> []" by simp
  with q show ?thesis using handler_searches [OF assms(1)] by blast
qed

theorem query_from_title_and_performer_witness:
  "audioQuery exampleAudio = ''Imagine John Lennon''
   \<and> (\<exists>effs out.
        handleAudioMessage (exampleEnv \<lparr>Total = 2, Tracks = [exampleTrack, otherTrack]\<rparr>)
          \<lparr>Audio = Some exampleAudio\<rparr> = (Search ''Imagine John Lennon'' # effs, out))"
proof -
  let ?e = "exampleEnv \<lparr>Total = 2, Tracks = [exampleTrack, otherTrack]\<rparr>"
  have t: "TrimSpace ''  Imagine  '' = ''Imagine''" by code_simp
  have 1: "Audio \<lparr>Audio = Some exampleAudio\<rparr> = Some exampleAudio" by simp
  have 2: "TrimSpace (Title exampleAudio) \<noteq> [] \<or> TrimSpace (Performer exampleAudio) \<noteq> []"
    by (simp add: exampleAudio_def t)
  from query_from_title_and_performer [OF 1 2, of ?e]
  have "\<exists>effs out. handleAudioMessage ?e \<lparr>Audio = Some exampleAudio\<rparr>
      = (Search (audioQuery exampleAudio) # effs, out)"
    by blast
  then show ?thesis unfolding exampleAudio_query by simp
qed

text \<open>
  C2, as the program has it. When the trimmed title and the trimmed performer are both
  empty, the query is the file name without a final \<open>.mp3\<close> (these four bytes, in
  lower case), trimmed; no other suffix is taken off. When that query is not empty,
  it is what the handler searches the catalog for.
\<close>

theorem query_from_filename:
  assumes "Audio msg = Some a"
    and "TrimSpace (Title a) = []" "TrimSpace (Performer a) = []"
  shows "audioQuery a = TrimSpace (TrimSuffix (FileName a) ''.mp3'')
    \<and> (audioQuery a \<noteq> [] \<longrightarrow>
         (\<exists>effs out. handleAudioMessage e msg = (Search (audioQuery a) # effs, out)))"
  using assms handler_searches [OF assms(1), of e]
  by (simp add: audioQuery_def TrimSpace_space)

theorem query_from_filename_witness:
  "audioQuery \<lparr>Title = [], Performer = [], FileName = ''My Song.mp3''\<rparr> = ''My Song''
   \<and> (\<exists>effs out.
        handleAudioMessage (exampleEnv \<lparr>Total = 0, Tracks = []\<rparr>)
          \<lparr>Audio = Some \<lparr>Title = [], Performer = [], FileName = ''My Song.mp3''\<rparr>\<rparr>
        = (Search ''My Song'' # effs, out))"
proof -
  let ?a = "\<lparr>Title = [], Performer = [], FileName = ''My Song.mp3''\<rparr>"
  let ?e = "exampleEnv \<lparr>Total = 0, Tracks = []\<rparr>"
  have n: "TrimSpace [] = []" by code_simp
  have f: "TrimSpace (TrimSuffix ''My Song.mp3'' ''.mp3'') = ''My Song''" by code_simp
  have 1: "Audio \<lparr>Audio = Some ?a\<rparr> = Some ?a" by simp
  have 2: "TrimSpace (Title ?a) = []" and 3: "TrimSpace (Performer ?a) = []"
    by (simp_all add: n)
  from query_from_filename [OF 1 2 3, of ?e]
  have A: "audioQuery ?a = TrimSpace (TrimSuffix (FileName ?a) ''.mp3'')"
    and B: "audioQuery ?a \<noteq> [] \<longrightarrow>
      (\<exists>effs out. handleAudioMessage ?e \<lparr>Audio = Some ?a\<rparr> = (Search (audioQuery ?a) # effs, out))"
    by blast+
  from A have "audioQuery ?a = ''My Song''" by (simp add: f)
  with B show ?thesis by auto
qed

theorem other_suffix_kept:
  "audioQuery \<lparr>Title = [], Performer = [], FileName = ''My Song.wav''\<rparr> = ''My Song.wav''
   \<and> audioQuery \<lparr>Title = [], Performer = [], FileName = ''My Song.wav''\<rparr> \<noteq> ''My Song''"
proof -
  have "audioQuery \<lparr>Title = [], Performer = [], FileName = ''My Song.wav''\<rparr> = ''My Song.wav''"
    by code_simp
  then show ?thesis by simp
qed

text \<open>
  C3. When the trimmed title, performer and file name are all empty, the handler
  replies with the text \<open>Audio metadata or filename is missing.\<close> (and logs the
  error of the reply if it could not be sent), returns the error for the empty query,
  and does not search the catalog.
\<close>

theorem empty_query_reply:
  assumes "Audio msg = Some a"
    and "TrimSpace (Title a) = []" "TrimSpace (Performer a) = []" "TrimSpace (FileName a) = []"
  shows "handleAudioMessage e msg =
     (Reply ''Audio metadata or filename is missing.'' None
        # checkSendMsgErr (sendMessage e ''Audio metadata or filename is missing.'' None),
      Returned (Some (Error ''audio metadata or filename is missing'')))
    \<and> list_all (\<lambda>eff. \<forall>q. eff \<noteq> Search q) (fst (handleAudioMessage e msg))"
proof -
  have "audioQuery a = []"
    using assms by (simp add: audioQuery_def TrimSpace_space blank_no_mp3)
  from handleAudio_empty [OF assms(1) this, of e] show ?thesis
    by (simp add: checkSendMsgErr_def split: option.split)
qed

theorem empty_query_reply_witness:
  "handleAudioMessage (exampleEnv \<lparr>Total = 0, Tracks = []\<rparr>)
     \<lparr>Audio = Some \<lparr>Title = [], Performer = '' '', FileName = []\<rparr>\<rparr> =
     ([Reply ''Audio metadata or filename is missing.'' None],
      Returned (Some (Error ''audio metadata or filename is missing'')))"
proof -
  let ?a = "\<lparr>Title = [], Performer = '' '', FileName = []\<rparr>"
  have n: "TrimSpace [] = []" by code_simp
  have 1: "Audio \<lparr>Audio = Some ?a\<rparr> = Some ?a" by simp
  have 2: "TrimSpace (Title ?a) = []" and 3: "TrimSpace (Performer ?a) = []"
    and 4: "TrimSpace (FileName ?a) = []" by (simp_all add: n TrimSpace_space)
  from empty_query_reply [OF 1 2 3 4, of "exampleEnv \<lparr>Total = 0, Tracks = []\<rparr>"]
  show ?thesis by (simp add: exampleEnv_send checkSendMsgErr_def)
qed

text \<open>
  The branch for no results. When the catalog reports a total of zero matches for a
  query that is not empty, the handler sends one reply: the text names the query as
  it is, between backquotes, and the keyboard has a single button, \<open>Search\<close>, whose
  URL is \<open>https://open.spotify.com/search/\<close> followed by the escaped query.
\<close>

theorem no_results_reply:
  assumes "Audio msg = Some a" "audioQuery a = q" "q \<noteq> []"
    and "spotifySearch e q = Inr r"
    and "TracksPage r = Some page" "Total page = 0"
  shows "handleAudioMessage e msg =
     ([Search q,
       Reply (''No results found on Spotify by query `'' @ q @ ''`'')
         (Some \<lparr>ParseMode = [], LinkPreviewOptions = None,
                 InlineKeyboard =
                   [[\<lparr>Text = ''Search'', Url = ''https://open.spotify.com/search/'' @ PathEscape q\<rparr>]]\<rparr>)],
      Returned (map_option Error (sendMessage e
        (''No results found on Spotify by query `'' @ q @ ''`'') (Some (noResultsOpts q)))))"
  using handleAudio_zero_total [OF assms]
  by (simp add: noResultsOpts_def searchBtn_def buildSpotifyUserSearchURL_def)

theorem no_results_reply_witness:
  "handleAudioMessage (exampleEnv \<lparr>Total = 0, Tracks = []\<rparr>) \<lparr>Audio = Some exampleAudio\<rparr> =
     ([Search ''Imagine John Lennon'',
       Reply ''No results found on Spotify by query `Imagine John Lennon`''
         (Some \<lparr>ParseMode = [], LinkPreviewOptions = None,
                 InlineKeyboard =
                   [[\<lparr>Text = ''Search'',
                      Url = ''https://open.spotify.com/search/Imagine%20John%20Lennon''\<rparr>]]\<rparr>)],
      Returned None)"
proof -
  let ?p = "\<lparr>Total = 0, Tracks = []\<rparr>"
  let ?e = "exampleEnv ?p"
  have p: "PathEscape ''Imagine John Lennon'' = ''Imagine%20John%20Lennon''" by code_simp
  have 1: "Audio \<lparr>Audio = Some exampleAudio\<rparr> = Some exampleAudio" by simp
  have 3: "''Imagine John Lennon'' \<noteq> []" by simp
  have 4: "spotifySearch ?e ''Imagine John Lennon'' = Inr \<lparr>TracksPage = Some ?p\<rparr>"
    by (rule exampleEnv_search)
  have 5: "TracksPage \<lparr>TracksPage = Some ?p\<rparr> = Some ?p" by simp
  have 6: "Total ?p = 0" by simp
  from no_results_reply [OF 1 exampleAudio_query 3 4 5 6]
  show ?thesis by (simp add: p exampleEnv_send)
qed

text \<open>
  C5. A search result with no tracks is to get the reply of the branch for no results.
  The handler takes that branch when the reported total is zero. A result whose page
  of tracks is empty while its total is not zero passes the test of line 225, and the
  handler, having searched, panics on reading the first track of the page in line 235:
  no reply is sent.
\<close>

theorem empty_page_panics:
  "handleAudioMessage (exampleEnv \<lparr>Total = 1, Tracks = []\<rparr>) \<lparr>Audio = Some exampleAudio\<rparr> =
     ([Search ''Imagine John Lennon''], Panicked)"
proof -
  let ?p = "\<lparr>Total = 1, Tracks = []\<rparr>"
  let ?e = "exampleEnv ?p"
  have 1: "Audio \<lparr>Audio = Some exampleAudio\<rparr> = Some exampleAudio" by simp
  have 3: "''Imagine John Lennon'' \<noteq> []" by simp
  have 4: "spotifySearch ?e ''Imagine John Lennon'' = Inr \<lparr>TracksPage = Some ?p\<rparr>"
    by (rule exampleEnv_search)
  have 5: "TracksPage \<lparr>TracksPage = Some ?p\<rparr> = Some ?p" by simp
  have 6: "Total ?p \<noteq> 0" and 7: "Tracks ?p = []" by simp_all
  from handleAudio_no_first_track [OF 1 exampleAudio_query 3 4 5 6 7] show ?thesis .
qed

text \<open>
  The branch for a first track. When the catalog's page reports a total that is not
  zero and has a first track, the handler sends one reply in HTML mode. Its text is a
  link whose target is the track's Spotify URL as the template engine lets it through
  (filtered, normalised, escaped for the attribute) and whose text is the escaped
  track name; then a line feed, \<open>by\<close> and, in bold, the escaped artist names joined
  by a comma and a space. The tracks after the first play no part.
\<close>

theorem first_track_reply:
  assumes "Audio msg = Some a" "audioQuery a = q" "q \<noteq> []"
    and "spotifySearch e q = Inr r"
    and "TracksPage r = Some page" "Total page \<noteq> 0" "Tracks page = track # rest"
  shows \<open>handleAudioMessage e msg =
     ([Search q,
       Reply (''<a href="''
              @ attrEscaper (urlNormalizer (urlFilter (mapIndex (ExternalURLs track) ''spotify'')))
              @ ''">'' @ htmlEscaper (Name track) @ ''</a>'' @ [CHR 0x0A] @ ''by <b>''
              @ htmlEscaper (Join (map artist_Name (Artists track)) '', '') @ ''</b>'')
         (Some \<lparr>ParseMode = ''HTML'',
                 LinkPreviewOptions = Some \<lparr>PreferSmallMedia = True, ShowAboveText = True\<rparr>,
                 InlineKeyboard = [[\<lparr>Text = ''Search'', Url = buildSpotifyUserSearchURL q\<rparr>]]\<rparr>)],
      Returned (map_option Error (sendMessage e (renderTrack track) (Some (resultOpts q)))))\<close>
  using handleAudio_first_track [OF assms]
  by (simp add: resultOpts_def searchBtn_def renderTrack_def)

theorem first_track_reply_witness:
  \<open>handleAudioMessage (exampleEnv \<lparr>Total = 2, Tracks = [exampleTrack, otherTrack]\<rparr>)
       \<lparr>Audio = Some exampleAudio\<rparr> =
     ([Search ''Imagine John Lennon'',
       Reply (''<a href="https://open.spotify.com/track/7pKfPomDEeI4TPT6EOYjn9">Imagine</a>''
              @ [CHR 0x0A] @ ''by <b>John Lennon, Yoko Ono</b>'')
         (Some \<lparr>ParseMode = ''HTML'',
                 LinkPreviewOptions = Some \<lparr>PreferSmallMedia = True, ShowAboveText = True\<rparr>,
                 InlineKeyboard =
                   [[\<lparr>Text = ''Search'',
                      Url = ''https://open.spotify.com/search/Imagine%20John%20Lennon''\<rparr>]]\<rparr>)],
      Returned None)\<close>
proof -
  let ?p = "\<lparr>Total = 2, Tracks = [exampleTrack, otherTrack]\<rparr>"
  let ?e = "exampleEnv ?p"
  have u: "attrEscaper (urlNormalizer (urlFilter (mapIndex (ExternalURLs exampleTrack) ''spotify'')))
      = ''https://open.spotify.com/track/7pKfPomDEeI4TPT6EOYjn9''"
    by code_simp
  have n: "htmlEscaper (Name exampleTrack) = ''Imagine''" by code_simp
  have a: "htmlEscaper (Join (map artist_Name (Artists exampleTrack)) '', '') = ''John Lennon, Yoko Ono''"
    by code_simp
  have b: "buildSpotifyUserSearchURL ''Imagine John Lennon''
      = ''https://open.spotify.com/search/Imagine%20John%20Lennon''"
    by code_simp
  have 1: "Audio \<lparr>Audio = Some exampleAudio\<rparr> = Some exampleAudio" by simp
  have 3: "''Imagine John Lennon'' \<noteq> []" by simp
  have 4: "spotifySearch ?e ''Imagine John Lennon'' = Inr \<lparr>TracksPage = Some ?p\<rparr>"
    by (rule exampleEnv_search)
  have 5: "TracksPage \<lparr>TracksPage = Some ?p\<rparr> = Some ?p" by simp
  have 6: "Total ?p \<noteq> 0" and 7: "Tracks ?p = exampleTrack # [otherTrack]" by simp_all
  from first_track_reply [OF 1 exampleAudio_query 3 4 5 6 7]
  show ?thesis unfolding u n a b by (simp add: exampleEnv_send)
qed


section \<open>Properties of the dispatch\<close>

lemma isReply_checkSendMsgErr: "filter isReply (checkSendMsgErr err) = []"
  by (simp add: checkSendMsgErr_def split: option.split)

text \<open>
  The ways in which the audio handler can end: with a panic, and then it has searched
  and found an answer without a page, or a page with a total that is not zero and no
  track; or by returning nil or an error of its own, and then it has sent exactly one
  reply.
\<close>

lemma handleAudio_shape:
  assumes "Audio msg = Some a"
  shows "(\<exists>effs. handleAudioMessage e msg = (effs, Panicked) \<and> filter isReply effs = []
            \<and> audioQuery a \<noteq> []
            \<and> (\<exists>r. spotifySearch e (audioQuery a) = Inr r
                  \<and> (TracksPage r = None
                      \<or> (\<exists>page. TracksPage r = Some page \<and> Total page \<noteq> 0
                            \<and> Tracks page = []))))
       \<or> (\<exists>effs. handleAudioMessage e msg = (effs, Returned None)
            \<and> length (filter isReply effs) = 1)
       \<or> (\<exists>effs x. handleAudioMessage e msg = (effs, Returned (Some (Error x)))
            \<and> length (filter isReply effs) = 1)"
proof (cases "audioQuery a = []")
  case True
  from handleAudio_empty [OF assms True, of e] show ?thesis
    by (simp add: isReply_checkSendMsgErr)
next
  case q: False
  show ?thesis
  proof (cases "spotifySearch e (audioQuery a)")
    case (Inl err)
    from handleAudio_search_failed [OF assms refl q Inl] show ?thesis
      by (simp add: isReply_checkSendMsgErr)
  next
    case (Inr r)
    show ?thesis
    proof (cases "TracksPage r")
      case None
      from handleAudio_no_page [OF assms refl q Inr None] show ?thesis
        using q Inr None by simp
    next
      case (Some page)
      show ?thesis
      proof (cases "Total page = 0")
        case True
        from handleAudio_zero_total [OF assms refl q Inr Some True] show ?thesis
          by (cases "sendMessage e (''No results found on Spotify by query `'' @ audioQuery a @ ''`'')
                (Some (noResultsOpts (audioQuery a)))") simp_all
      next
        case t: False
        show ?thesis
        proof (cases "Tracks page")
          case Nil
          from handleAudio_no_first_track [OF assms refl q Inr Some t Nil] show ?thesis
            using q Inr Some t Nil by simp
        next
          case (Cons track rest)
          from handleAudio_first_track [OF assms refl q Inr Some t Cons] show ?thesis
            by (cases "sendMessage e (renderTrack track) (Some (resultOpts (audioQuery a)))")
              simp_all
        qed
      qed
    qed
  qed
qed

text \<open>The encoder writes every update that was decoded from JSON.\<close>

lemma map_filter_unsupported:
  "list_all (\<lambda>f. unsupportedValue f = None) fs \<Longrightarrow> List.map_filter unsupportedValue fs = []"
  by (induction fs) (simp_all add: List.map_filter_simps)

lemma jsonMarshal_decoded:
  assumes "decodedFromJSON u"
  shows "jsonMarshal e u = Inr (jsonText e u)"
  using map_filter_unsupported [of "Floats u"] assms
  by (simp add: jsonMarshal_def decodedFromJSON_def)

lemma observer_effects:
  assumes "decodedFromJSON u"
  shows "HandleAnything_HandleUpdate e u =
     ((if debugLevelEnabled e then [LogDebug ''Handling update'' (jsonText e u)] else []),
      Returned (Some ContinueGroups))"
  using jsonMarshal_decoded [OF assms, of e] by (simp add: HandleAnything_HandleUpdate_def)

lemma observer_continues:
  assumes "decodedFromJSON u"
  shows "snd (HandleAnything_HandleUpdate e u) = Returned (Some ContinueGroups)
    \<and> filter isReply (fst (HandleAnything_HandleUpdate e u)) = []"
  using observer_effects [OF assms, of e] by simp

lemma ProcessUpdate_after_observer:
  assumes "snd (HandleAnything_HandleUpdate e u) = Returned (Some ContinueGroups)"
  shows "ProcessUpdate e u =
     fst (HandleAnything_HandleUpdate e u) @ fst (iterateGroup e groupZero u)"
proof -
  obtain effs where "HandleAnything_HandleUpdate e u = (effs, Returned (Some ContinueGroups))"
    using assms by (cases "HandleAnything_HandleUpdate e u") simp
  then show ?thesis
    by (simp add: ProcessUpdate_def HandleAnything_def HandleAnything_CheckUpdate_def
        split: prod.split)
qed

lemma groupZero_unknown:
  assumes "Message u = Some msg" "Audio msg = None"
  shows "fst (iterateGroup e groupZero u) = afterHandler (handleUnknownMessage e msg)"
  using assms
  by (cases "sendMessage e ''Send me an audio file to search on Spotify.'' None")
    (simp_all add: groupZero_def NewMessage_def EffectiveMessage_def message_Audio_def
      message_All_def handleUnknownMessage_def afterHandler_def dispatcherError_def)

lemma groupZero_audio:
  assumes "Message u = Some msg" "Audio msg = Some a"
  shows "fst (iterateGroup e groupZero u) = afterHandler (handleAudioMessage e msg)"
proof -
  from handleAudio_shape [OF assms(2), of e]
  consider effs where "handleAudioMessage e msg = (effs, Panicked)"
    | effs where "handleAudioMessage e msg = (effs, Returned None)"
    | effs x where "handleAudioMessage e msg = (effs, Returned (Some (Error x)))"
    by blast
  then show ?thesis
    using assms
    by cases
      (simp_all add: groupZero_def NewMessage_def EffectiveMessage_def message_Audio_def
        afterHandler_def dispatcherError_def)
qed

lemma groupZero_no_message:
  assumes "Message u = None"
  shows "iterateGroup e groupZero u = ([], True)"
  using assms by (simp add: groupZero_def NewMessage_def)

lemma unknown_reply:
  "filter isReply (afterHandler (handleUnknownMessage e msg)) =
     [Reply ''Send me an audio file to search on Spotify.'' None]"
  by (cases "sendMessage e ''Send me an audio file to search on Spotify.'' None")
    (simp_all add: afterHandler_def handleUnknownMessage_def Let_def)

lemma exampleEnv_observer_effects:
  assumes "decodedFromJSON u"
  shows "fst (HandleAnything_HandleUpdate (exampleEnv page) u) = [LogDebug ''Handling update'' ''{}'']"
  using observer_effects [OF assms, of "exampleEnv page"] by (simp add: exampleEnv_def)

lemma noPageEnv_observer_effects:
  assumes "decodedFromJSON u"
  shows "fst (HandleAnything_HandleUpdate noPageEnv u) = [LogDebug ''Handling update'' ''{}'']"
  using observer_effects [OF assms, of noPageEnv] by (simp add: noPageEnv_def)

lemma examples_decoded:
  "decodedFromJSON textUpdate" "decodedFromJSON audioUpdate"
  "decodedFromJSON editedTextUpdate" "decodedFromJSON editedAudioUpdate"
  by (simp_all add: decodedFromJSON_def textUpdate_def audioUpdate_def editedTextUpdate_def
      editedAudioUpdate_def)

text \<open>
  An update built by hand around a number that is not finite is not encoded: with
  debug logging on, the observer returns the wrapped error of the encoder, and the
  dispatcher logs it and ends the iteration. No update decoded from JSON is of this
  kind.
\<close>

lemma hand_built_update_not_encoded:
  "\<not> decodedFromJSON handBuiltUpdate
   \<and> jsonMarshal (exampleEnv page) handBuiltUpdate = Inl ''json: unsupported value: NaN''
   \<and> ProcessUpdate (exampleEnv page) handBuiltUpdate =
       [LogError ''An error occurred while handling update''
          (Error ''failed to marshal update: json: unsupported value: NaN'')]"
  by (simp add: decodedFromJSON_def handBuiltUpdate_def jsonMarshal_def unsupportedValue_def
      List.map_filter_simps HandleAnything_HandleUpdate_def exampleEnv_def ProcessUpdate_def
      HandleAnything_def HandleAnything_CheckUpdate_def dispatcherError_def)

text \<open>
  C8, as the program has it. For every inbound update (an update decoded from JSON)
  the observer never ends the dispatch itself: it logs the encoded update when debug
  logging is on, and it always returns \<open>ContinueGroups\<close>, so that the dispatch goes on
  with group 0 after the observer's own effects. When the update carries a new
  message, group 0 then runs the audio handler or the catch-all handler.
\<close>

theorem observer_yields:
  assumes "decodedFromJSON u"
  shows "HandleAnything_HandleUpdate e u =
       ((if debugLevelEnabled e then [LogDebug ''Handling update'' (jsonText e u)] else []),
        Returned (Some ContinueGroups))
    \<and> ProcessUpdate e u =
        fst (HandleAnything_HandleUpdate e u) @ fst (iterateGroup e groupZero u)
    \<and> (\<forall>msg. Message u = Some msg \<longrightarrow>
          fst (iterateGroup e groupZero u) =
            afterHandler (if Audio msg = None then handleUnknownMessage e msg
                          else handleAudioMessage e msg))"
proof (intro conjI)
  show "HandleAnything_HandleUpdate e u =
       ((if debugLevelEnabled e then [LogDebug ''Handling update'' (jsonText e u)] else []),
        Returned (Some ContinueGroups))"
    by (rule observer_effects [OF assms])
  then have c: "snd (HandleAnything_HandleUpdate e u) = Returned (Some ContinueGroups)"
    by simp
  show "ProcessUpdate e u =
      fst (HandleAnything_HandleUpdate e u) @ fst (iterateGroup e groupZero u)"
    by (rule ProcessUpdate_after_observer [OF c])
  show "\<forall>msg. Message u = Some msg \<longrightarrow>
      fst (iterateGroup e groupZero u) =
        afterHandler (if Audio msg = None then handleUnknownMessage e msg
                      else handleAudioMessage e msg)"
  proof (intro allI impI)
    fix msg assume m: "Message u = Some msg"
    show "fst (iterateGroup e groupZero u) =
        afterHandler (if Audio msg = None then handleUnknownMessage e msg
                      else handleAudioMessage e msg)"
      using groupZero_unknown [OF m, of e] groupZero_audio [OF m, of _ e]
      by (cases "Audio msg") simp_all
  qed
qed

theorem observer_yields_witness:
  "decodedFromJSON textUpdate
   \<and> HandleAnything_HandleUpdate (exampleEnv \<lparr>Total = 0, Tracks = []\<rparr>) textUpdate =
       ([LogDebug ''Handling update'' ''{}''], Returned (Some ContinueGroups))
   \<and> ProcessUpdate (exampleEnv \<lparr>Total = 0, Tracks = []\<rparr>) textUpdate =
       [LogDebug ''Handling update'' ''{}'',
        Reply ''Send me an audio file to search on Spotify.'' None]"
proof -
  let ?e = "exampleEnv \<lparr>Total = 0, Tracks = []\<rparr>"
  have d: "decodedFromJSON textUpdate" by (rule examples_decoded)
  from observer_yields [OF d, of ?e]
  have h: "HandleAnything_HandleUpdate ?e textUpdate =
       ((if debugLevelEnabled ?e then [LogDebug ''Handling update'' (jsonText ?e textUpdate)]
         else []), Returned (Some ContinueGroups))"
    and p: "ProcessUpdate ?e textUpdate =
      fst (HandleAnything_HandleUpdate ?e textUpdate) @ fst (iterateGroup ?e groupZero textUpdate)"
    and g: "\<forall>msg. Message textUpdate = Some msg \<longrightarrow>
      fst (iterateGroup ?e groupZero textUpdate) =
        afterHandler (if Audio msg = None then handleUnknownMessage ?e msg
                      else handleAudioMessage ?e msg)"
    by blast+
  from h have h': "HandleAnything_HandleUpdate ?e textUpdate =
       ([LogDebug ''Handling update'' ''{}''], Returned (Some ContinueGroups))"
    by (simp add: exampleEnv_def)
  from g have "fst (iterateGroup ?e groupZero textUpdate) =
      afterHandler (handleUnknownMessage ?e \<lparr>Audio = None\<rparr>)"
    by (simp add: textUpdate_def)
  then have "fst (iterateGroup ?e groupZero textUpdate) =
      [Reply ''Send me an audio file to search on Spotify.'' None]"
    by (simp add: exampleEnv_send handleUnknownMessage_def afterHandler_def)
  with p h' have "ProcessUpdate ?e textUpdate =
     [LogDebug ''Handling update'' ''{}'',
      Reply ''Send me an audio file to search on Spotify.'' None]"
    by simp
  with d h' show ?thesis by simp
qed

theorem edited_message_runs_no_handler:
  "decodedFromJSON editedAudioUpdate
   \<and> snd (HandleAnything_HandleUpdate
            (exampleEnv \<lparr>Total = 2, Tracks = [exampleTrack, otherTrack]\<rparr>) editedAudioUpdate)
       = Returned (Some ContinueGroups)
   \<and> \<not> CheckUpdate (NewMessage message_Audio handleAudioMessage) editedAudioUpdate
   \<and> \<not> CheckUpdate (NewMessage message_All handleUnknownMessage) editedAudioUpdate
   \<and> iterateGroup (exampleEnv \<lparr>Total = 2, Tracks = [exampleTrack, otherTrack]\<rparr>) groupZero
         editedAudioUpdate = ([], True)
   \<and> ProcessUpdate (exampleEnv \<lparr>Total = 2, Tracks = [exampleTrack, otherTrack]\<rparr>)
         editedAudioUpdate = [LogDebug ''Handling update'' ''{}'']"
proof -
  let ?e = "exampleEnv \<lparr>Total = 2, Tracks = [exampleTrack, otherTrack]\<rparr>"
  have d: "decodedFromJSON editedAudioUpdate" by (rule examples_decoded)
  have c: "snd (HandleAnything_HandleUpdate ?e editedAudioUpdate) = Returned (Some ContinueGroups)"
    using observer_continues [OF d] by simp
  have m: "Message editedAudioUpdate = None" by (simp add: editedAudioUpdate_def)
  have g: "iterateGroup ?e groupZero editedAudioUpdate = ([], True)"
    by (rule groupZero_no_message [OF m])
  have n: "\<not> CheckUpdate (NewMessage message_Audio handleAudioMessage) editedAudioUpdate"
    "\<not> CheckUpdate (NewMessage message_All handleUnknownMessage) editedAudioUpdate"
    using m by (simp_all add: NewMessage_def)
  from ProcessUpdate_after_observer [OF c] g
  have "ProcessUpdate ?e editedAudioUpdate = [LogDebug ''Handling update'' ''{}'']"
    by (simp add: exampleEnv_observer_effects [OF d])
  with d c g n show ?thesis by simp
qed

text \<open>
  C7, as the program has it. For every inbound update that carries a new message,
  when the audio handler does not meet a search answer without a page of tracks or
  with an empty page under a total that is not zero (see C5), the handling of the
  update produces exactly one reply, on every branch: the empty query, the failed
  search, the total of zero, the first track (rendering the fixed template never
  fails, so the branch that returns a rendering error without a reply is never
  taken). A new message without an audio attachment gets the catch-all reply
  \<open>Send me an audio file to search on Spotify.\<close>
\<close>

theorem one_reply_per_message:
  assumes "decodedFromJSON u"
    and "Message u = Some msg"
    and "\<forall>a r. Audio msg = Some a \<longrightarrow> audioQuery a \<noteq> [] \<longrightarrow>
           spotifySearch e (audioQuery a) = Inr r \<longrightarrow>
           (\<exists>page. TracksPage r = Some page \<and> (Total page \<noteq> 0 \<longrightarrow> Tracks page \<noteq> []))"
  shows "length (filter isReply (ProcessUpdate e u)) = 1
    \<and> (Audio msg = None \<longrightarrow>
         filter isReply (ProcessUpdate e u) =
           [Reply ''Send me an audio file to search on Spotify.'' None])"
proof -
  have c: "snd (HandleAnything_HandleUpdate e u) = Returned (Some ContinueGroups)"
    and o: "filter isReply (fst (HandleAnything_HandleUpdate e u)) = []"
    using observer_continues [OF assms(1)] by simp_all
  have p: "filter isReply (ProcessUpdate e u) = filter isReply (fst (iterateGroup e groupZero u))"
    using ProcessUpdate_after_observer [OF c] o by simp
  show ?thesis
  proof (cases "Audio msg")
    case None
    then show ?thesis using p groupZero_unknown [OF assms(2) None, of e] unknown_reply [of e msg]
      by simp
  next
    case (Some a)
    have g: "fst (iterateGroup e groupZero u) = afterHandler (handleAudioMessage e msg)"
      by (rule groupZero_audio [OF assms(2) Some])
    from handleAudio_shape [OF Some, of e] assms(3) Some
    consider effs where "handleAudioMessage e msg = (effs, Returned None)"
        "length (filter isReply effs) = 1"
      | effs x where "handleAudioMessage e msg = (effs, Returned (Some (Error x)))"
        "length (filter isReply effs) = 1"
      by fastforce
    then have "length (filter isReply (afterHandler (handleAudioMessage e msg))) = 1"
      by cases (simp_all add: afterHandler_def)
    then show ?thesis using p g Some by simp
  qed
qed

theorem one_reply_per_message_witness:
  "length (filter isReply
     (ProcessUpdate (exampleEnv \<lparr>Total = 2, Tracks = [exampleTrack, otherTrack]\<rparr>) audioUpdate)) = 1
   \<and> filter isReply (ProcessUpdate (exampleEnv \<lparr>Total = 0, Tracks = []\<rparr>) textUpdate) =
       [Reply ''Send me an audio file to search on Spotify.'' None]"
proof -
  let ?p = "\<lparr>Total = 2, Tracks = [exampleTrack, otherTrack]\<rparr>"
  have 1: "Message audioUpdate = Some \<lparr>Audio = Some exampleAudio\<rparr>"
    by (simp add: audioUpdate_def)
  have 3: "\<forall>a r. Audio \<lparr>Audio = Some exampleAudio\<rparr> = Some a \<longrightarrow> audioQuery a \<noteq> [] \<longrightarrow>
      spotifySearch (exampleEnv ?p) (audioQuery a) = Inr r \<longrightarrow>
      (\<exists>page. TracksPage r = Some page \<and> (Total page \<noteq> 0 \<longrightarrow> Tracks page \<noteq> []))"
    by (simp add: exampleEnv_search)
  have 4: "Message textUpdate = Some \<lparr>Audio = None\<rparr>" by (simp add: textUpdate_def)
  have 6: "\<forall>a r. Audio \<lparr>Audio = None\<rparr> = Some a \<longrightarrow> audioQuery a \<noteq> [] \<longrightarrow>
      spotifySearch (exampleEnv \<lparr>Total = 0, Tracks = []\<rparr>) (audioQuery a) = Inr r \<longrightarrow>
      (\<exists>page. TracksPage r = Some page \<and> (Total page \<noteq> 0 \<longrightarrow> Tracks page \<noteq> []))"
    by simp
  from one_reply_per_message [OF examples_decoded(2) 1 3]
    one_reply_per_message [OF examples_decoded(1) 4 6]
  show ?thesis by simp
qed

theorem updates_without_reply:
  "decodedFromJSON editedTextUpdate
   \<and> HandleAnything_CheckUpdate editedTextUpdate
   \<and> ProcessUpdate (exampleEnv \<lparr>Total = 0, Tracks = []\<rparr>) editedTextUpdate =
       [LogDebug ''Handling update'' ''{}'']
   \<and> ProcessUpdate noPageEnv audioUpdate =
       [LogDebug ''Handling update'' ''{}'', Search ''Imagine John Lennon'']
   \<and> ProcessUpdate (exampleEnv \<lparr>Total = 1, Tracks = []\<rparr>) audioUpdate =
       [LogDebug ''Handling update'' ''{}'', Search ''Imagine John Lennon'']"
proof -
  let ?p = "\<lparr>Total = 1, Tracks = []\<rparr>"
  let ?e = "exampleEnv ?p"
  let ?z = "exampleEnv \<lparr>Total = 0, Tracks = []\<rparr>"
  have dt: "decodedFromJSON editedTextUpdate" and da: "decodedFromJSON audioUpdate"
    by (rule examples_decoded)+
  have k: "HandleAnything_CheckUpdate editedTextUpdate"
    by (simp add: HandleAnything_CheckUpdate_def)
  have cz: "snd (HandleAnything_HandleUpdate ?z editedTextUpdate) = Returned (Some ContinueGroups)"
    using observer_continues [OF dt] by simp
  have mz: "Message editedTextUpdate = None" by (simp add: editedTextUpdate_def)
  from ProcessUpdate_after_observer [OF cz] groupZero_no_message [OF mz, of ?z]
  have A: "ProcessUpdate ?z editedTextUpdate = [LogDebug ''Handling update'' ''{}'']"
    by (simp add: exampleEnv_observer_effects [OF dt])
  have 1: "Audio \<lparr>Audio = Some exampleAudio\<rparr> = Some exampleAudio" by simp
  have 3: "''Imagine John Lennon'' \<noteq> []" by simp
  have m: "Message audioUpdate = Some \<lparr>Audio = Some exampleAudio\<rparr>"
    by (simp add: audioUpdate_def)
  have cn: "snd (HandleAnything_HandleUpdate noPageEnv audioUpdate) = Returned (Some ContinueGroups)"
    using observer_continues [OF da] by simp
  have sn: "spotifySearch noPageEnv ''Imagine John Lennon'' = Inr \<lparr>TracksPage = None\<rparr>"
    by (simp add: noPageEnv_def)
  have tn: "TracksPage \<lparr>TracksPage = None\<rparr> = None" by simp
  have hn: "handleAudioMessage noPageEnv \<lparr>Audio = Some exampleAudio\<rparr>
      = ([Search ''Imagine John Lennon''], Panicked)"
    by (rule handleAudio_no_page [OF 1 exampleAudio_query 3 sn tn])
  have "fst (iterateGroup noPageEnv groupZero audioUpdate) = [Search ''Imagine John Lennon'']"
    using groupZero_audio [OF m 1, of noPageEnv] hn by (simp add: afterHandler_def)
  with ProcessUpdate_after_observer [OF cn]
  have B: "ProcessUpdate noPageEnv audioUpdate =
      [LogDebug ''Handling update'' ''{}'', Search ''Imagine John Lennon'']"
    by (simp add: noPageEnv_observer_effects [OF da])
  have c: "snd (HandleAnything_HandleUpdate ?e audioUpdate) = Returned (Some ContinueGroups)"
    using observer_continues [OF da] by simp
  have 4: "spotifySearch ?e ''Imagine John Lennon'' = Inr \<lparr>TracksPage = Some ?p\<rparr>"
    by (rule exampleEnv_search)
  have 5: "TracksPage \<lparr>TracksPage = Some ?p\<rparr> = Some ?p" by simp
  have 6: "Total ?p \<noteq> 0" and 7: "Tracks ?p = []" by simp_all
  have h: "handleAudioMessage ?e \<lparr>Audio = Some exampleAudio\<rparr>
      = ([Search ''Imagine John Lennon''], Panicked)"
    by (rule handleAudio_no_first_track [OF 1 exampleAudio_query 3 4 5 6 7])
  have "fst (iterateGroup ?e groupZero audioUpdate) = [Search ''Imagine John Lennon'']"
    using groupZero_audio [OF m 1, of ?e] h by (simp add: afterHandler_def)
  with ProcessUpdate_after_observer [OF c]
  have C: "ProcessUpdate ?e audioUpdate =
      [LogDebug ''Handling update'' ''{}'', Search ''Imagine John Lennon'']"
    by (simp add: exampleEnv_observer_effects [OF da])
  from dt k A B C show ?thesis by simp
qed

end
